theory Spec2Isabelle
  imports Main
begin

section \<open>Python values, exceptions and the external world\<close>

text \<open>
  The repository is three Jupyter notebooks: MaskRCNN training with PyTorch, BERT training with
  TensorFlow, and the deployment of a trained model. A notebook is a list of cells; a run
  executes them once, in the order of the file, in one Python namespace that is empty at the
  start; a cell is a list of statements; a run stops at the first statement that raises. Every statement either binds notebook variables or calls out of the
  repository (the SageMaker SDK, boto3, the system shell). The model keeps
  \<^item> the namespace as a record with one field for each notebook variable, unbound at first
    (reading an unbound variable raises NameError),
  \<^item> the calls that leave the notebook, in the order they are made, in the field \<open>trace\<close>,
  \<^item> what the outside answers as a record \<open>world\<close>, over which every theorem quantifies,
  \<^item> the tracebacks that a \<open>%%time\<close> cell printed instead of raising, in the field \<open>shown\<close>.
  Imports bind module names only, and \<open>print\<close> changes neither the variables nor the calls;
  they are left out.
\<close>

text \<open>A value of a hyperparameter or distribution dictionary. A float is kept as the decimal
  literal that denotes it; the notebooks do no arithmetic on it.\<close>

datatype pyval =
    PStr string
  | PInt int
  | PFloat string
  | PBool bool
  | PDict "(string \<times> pyval) list"

text \<open>An exception raised by the outside is opaque to the notebook.\<close>

datatype error =
    NameError string
  | External string

type_synonym 'a var = "'a option"

datatype session_obj = SagemakerSession
datatype client_obj = BotoClient string
datatype boto_session_obj = BotoSession

text \<open>The keyword arguments of the estimator constructors \<open>PyTorch(...)\<close> and
  \<open>TensorFlow(...)\<close>; both notebooks pass the same fourteen keywords.\<close>

record est_kwargs =
  kw_entry_point :: string
  kw_role :: string
  kw_image_uri :: string
  kw_source_dir :: string
  kw_instance_count :: int
  kw_instance_type :: string
  kw_framework_version :: string
  kw_py_version :: string
  kw_sagemaker_session :: session_obj
  kw_hyperparameters :: "(string \<times> pyval) list"
  kw_subnets :: "string list"
  kw_security_group_ids :: "string list"
  kw_debugger_hook_config :: bool
  kw_distribution :: "(string \<times> pyval) list"

text \<open>An SDK object is represented by the constructor and the keyword arguments it was made
  with: what the SDK does with them is outside the repository.\<close>

datatype estimator_obj = PyTorch est_kwargs | TensorFlow est_kwargs

record fs_kwargs =
  kw_file_system_id :: string
  kw_file_system_type :: string
  kw_directory_path :: string
  kw_file_system_access_mode :: string

datatype fs_input_obj = FileSystemInput fs_kwargs

text \<open>The keyword arguments of \<open>TensorFlowModel(...)\<close>; the predictor that \<open>model.deploy\<close> returns
  is represented by the model and the two arguments of the call.\<close>

record model_kwargs =
  kw_model_data :: string
  kw_model_role :: string
  kw_model_framework_version :: string

datatype model_obj = TensorFlowModel model_kwargs

datatype predictor_obj = Predictor model_obj int string

text \<open>The calls that leave a notebook.\<close>

datatype call =
    Shell string
  | Call_sagemaker_Session
  | Call_default_bucket
  | Call_get_execution_role
  | Call_boto3_client string
  | Call_get_caller_identity
  | Call_boto3_Session
  | Call_estimator estimator_obj
  | Call_FileSystemInput fs_kwargs
  | Call_fit estimator_obj "(string \<times> fs_input_obj) list" string
  | Job_terminal estimator_obj "(string \<times> fs_input_obj) list" string
  | Call_open string string
  | Call_download_fileobj string string
  | Call_upload_fileobj string string
  | Call_TensorFlowModel model_kwargs
  | Call_deploy model_obj int string
  | Call_delete_endpoint predictor_obj

text \<open>
  What the outside answers: \<open>Inl x\<close> (or \<open>Some x\<close> where nothing is returned) is the exception
  \<open>x\<close> it raises. \<open>w_get_caller_identity\<close> is the \<open>'Account'\<close> entry of the identity;
  \<open>w_region_name\<close> is the attribute \<open>region_name\<close> of the boto3 session, which is Python's
  \<open>None\<close> when no region is configured. A shell line started with \<open>!\<close> never raises in the
  notebook, whatever its exit status, so it has no entry here. \<open>w_fit\<close> is the answer to the
  submission of the job and \<open>w_job_terminal\<close> the terminal state the platform reports for it:
  \<open>None\<close> for completion, \<open>Some x\<close> for the failure \<open>x\<close>. \<open>w_stored_model_data\<close> is what
  IPython's store holds under the name \<open>model_data\<close>, if anything.
\<close>

record world =
  w_sagemaker_Session :: "string option"
  w_default_bucket :: "string + string"
  w_get_execution_role :: "string + string"
  w_boto3_client :: "string \<Rightarrow> string option"
  w_get_caller_identity :: "string + string"
  w_boto3_Session :: "string option"
  w_region_name :: "string option"
  w_estimator :: "estimator_obj \<Rightarrow> string option"
  w_FileSystemInput :: "fs_kwargs \<Rightarrow> string option"
  w_fit :: "estimator_obj \<Rightarrow> (string \<times> fs_input_obj) list \<Rightarrow> string \<Rightarrow> string option"
  w_job_terminal :: "estimator_obj \<Rightarrow> (string \<times> fs_input_obj) list \<Rightarrow> string \<Rightarrow> string option"
  w_stored_model_data :: "string option"
  w_open :: "string \<Rightarrow> string \<Rightarrow> string option"
  w_download_fileobj :: "string \<Rightarrow> string \<Rightarrow> string option"
  w_upload_fileobj :: "string \<Rightarrow> string \<Rightarrow> string option"
  w_TensorFlowModel :: "model_kwargs \<Rightarrow> string option"
  w_deploy :: "model_obj \<Rightarrow> int \<Rightarrow> string \<Rightarrow> string option"
  w_delete_endpoint :: "predictor_obj \<Rightarrow> string option"

text \<open>The namespace: the variables of the three notebooks. \<open>image_var\<close> is the variable
  \<open>image\<close>.\<close>

record ns =
  sagemaker_session :: "session_obj var"
  bucket :: "string var"
  role :: "string var"
  role_name :: "string list var"
  client :: "client_obj var"
  account :: "string var"
  session :: "boto_session_obj var"
  region :: "string option var"
  image_var :: "string var"
  tag :: "string var"
  instance_type :: "string var"
  instance_count :: "int var"
  docker_image :: "string var"
  username :: "string var"
  subnets :: "string list var"
  security_group_ids :: "string list var"
  job_name :: "string var"
  file_system_id :: "string var"
  config_file :: "string var"
  SM_DATA_ROOT :: "string var"
  hyperparameters :: "(string \<times> pyval) list var"
  estimator :: "estimator_obj var"
  file_system_directory_path :: "string var"
  file_system_access_mode :: "string var"
  file_system_type :: "string var"
  train_fs :: "fs_input_obj var"
  data_channels :: "(string \<times> fs_input_obj) list var"
  model_data :: "string var"
  model :: "model_obj var"
  predictor :: "predictor_obj var"
  trace :: "call list"
  shown :: "error list"

definition fresh :: ns where
  "fresh = \<lparr> sagemaker_session = None, bucket = None, role = None, role_name = None,
     client = None, account = None, session = None, region = None, image_var = None,
     tag = None, instance_type = None, instance_count = None, docker_image = None,
     username = None, subnets = None, security_group_ids = None, job_name = None,
     file_system_id = None, config_file = None, SM_DATA_ROOT = None,
     hyperparameters = None, estimator = None, file_system_directory_path = None,
     file_system_access_mode = None, file_system_type = None, train_fs = None,
     data_channels = None, model_data = None, model = None, predictor = None, trace = [],
     shown = [] \<rparr>"

subsection \<open>Statements\<close>

datatype outcome = Completed ns | Raised error ns

type_synonym stmt = "ns \<Rightarrow> outcome"

text \<open>Reading the variable \<open>nm\<close>.\<close>

definition read :: "(ns \<Rightarrow> 'a var) \<Rightarrow> string \<Rightarrow> ('a \<Rightarrow> stmt) \<Rightarrow> stmt" where
  "read v nm k s = (case v s of None \<Rightarrow> Raised (NameError nm) s | Some a \<Rightarrow> k a s)"

text \<open>Binding variables: the end of a statement.\<close>

definition bind_var :: "(ns \<Rightarrow> ns) \<Rightarrow> stmt" where
  "bind_var f s = Completed (f s)"

text \<open>A call that returns a value or raises, and one that returns nothing or raises. The call
  is logged before its answer is known.\<close>

definition extern :: "call \<Rightarrow> string + 'a \<Rightarrow> ('a \<Rightarrow> stmt) \<Rightarrow> stmt" where
  "extern c r k s =
     (let s' = s\<lparr>trace := trace s @ [c]\<rparr>
      in case r of Inl x \<Rightarrow> Raised (External x) s' | Inr a \<Rightarrow> k a s')"

definition extern_unit :: "call \<Rightarrow> string option \<Rightarrow> stmt \<Rightarrow> stmt" where
  "extern_unit c r k s =
     (let s' = s\<lparr>trace := trace s @ [c]\<rparr>
      in case r of Some x \<Rightarrow> Raised (External x) s' | None \<Rightarrow> k s')"

text \<open>A shell line: logged, its exit status dropped.\<close>

definition shell :: "string \<Rightarrow> stmt" where
  "shell cmd s = Completed (s\<lparr>trace := trace s @ [Shell cmd]\<rparr>)"

text \<open>Statements, and cells, in sequence: the first exception ends the run.\<close>

fun run :: "stmt list \<Rightarrow> stmt" where
  "run [] s = Completed s"
| "run (c # cs) s = (case c s of Completed s' \<Rightarrow> run cs s' | Raised e s' \<Rightarrow> Raised e s')"

text \<open>
  A cell that starts with \<open>%%time\<close>. The magic of IPython 7 and 8 (the versions that run on the
  Python 3.6 and 3.7 kernels the notebooks name) executes the body in the notebook's
  namespace and, when a statement raises, prints the traceback and returns: the bindings made
  so far stay, the rest of the cell is skipped, and the run goes on with the next cell.
\<close>

definition time_magic :: "stmt \<Rightarrow> stmt" where
  "time_magic body s =
     (case body s of
        Completed s' \<Rightarrow> Completed s'
      | Raised e s' \<Rightarrow> Completed (s'\<lparr>shown := shown s' @ [e]\<rparr>))"

text \<open>The namespace a run leaves, and the calls made up to its end.\<close>

fun final :: "outcome \<Rightarrow> ns" where
  "final (Completed s) = s"
| "final (Raised e s) = s"

definition calls :: "outcome \<Rightarrow> call list" where
  "calls out = trace (final out)"

text \<open>The exception a run ended with, if any.\<close>

fun raised :: "outcome \<Rightarrow> error option" where
  "raised (Completed s) = None"
| "raised (Raised e s) = Some e"

text \<open>Python's \<open>str\<close> of a value that is a string or \<open>None\<close>, as an f-string and the
  \<open>{name}\<close> expansion of a shell line apply it.\<close>

fun py_str :: "string option \<Rightarrow> string" where
  "py_str None = ''None''"
| "py_str (Some x) = x"

text \<open>Python's \<open>sep.join(parts)\<close>, and \<open>s.split(sep)\<close> for a separator of one character.\<close>

fun str_join :: "string \<Rightarrow> string list \<Rightarrow> string" where
  "str_join sep [] = []"
| "str_join sep [x] = x"
| "str_join sep (x # y # ys) = x @ sep @ str_join sep (y # ys)"

fun str_split :: "char \<Rightarrow> string \<Rightarrow> string list" where
  "str_split sep [] = [[]]"
| "str_split sep (c # cs) =
     (if c = sep then [] # str_split sep cs
      else (case str_split sep cs of [] \<Rightarrow> [[c]] | p # ps \<Rightarrow> (c # p) # ps))"

section \<open>The operator's values\<close>

text \<open>
  The literals the notebooks tell the operator to replace (placeholders such as
  \<open><SUBNET_ID>\<close>, and values commented with an example or an alternative) are the fields of
  \<open>operator\<close>; the cells below read them from there, and \<open>maskrcnn_as_written\<close> and
  \<open>bert_as_written\<close> are the literals of the two notebooks as they stand in the repository.
  \<open>op_region\<close> and \<open>op_config_file\<close> occur in the MaskRCNN notebook only.
\<close>

record operator =
  op_image :: string
  op_tag :: string
  op_instance_type :: string
  op_instance_count :: int
  op_region :: string
  op_subnets :: "string list"
  op_security_group_ids :: "string list"
  op_job_name :: string
  op_file_system_id :: string
  op_config_file :: string
  op_file_system_directory_path :: string
  op_file_system_access_mode :: string
  op_file_system_type :: string

definition maskrcnn_as_written :: operator where
  "maskrcnn_as_written = \<lparr>
     op_image = ''<ADD NAME OF REPO>'',
     op_tag = ''<ADD TAG FOR IMAGE>'',
     op_instance_type = ''ml.p3dn.24xlarge'',
     op_instance_count = 2,
     op_region = ''<REGION>'',
     op_subnets = [''<SUBNET_ID>''],
     op_security_group_ids = [''<SECURITY_GROUP_ID>''],
     op_job_name = ''pytorch-smdataparallel-mrcnn-fsx'',
     op_file_system_id = ''<FSX_ID>'',
     op_config_file = ''e2e_mask_rcnn_R_50_FPN_1x_16GPU_4bs.yaml'',
     op_file_system_directory_path = ''YOUR_MOUNT_PATH_FOR_TRAINING_DATA'',
     op_file_system_access_mode = ''ro'',
     op_file_system_type = ''FSxLustre'' \<rparr>"

definition bert_as_written :: operator where
  "bert_as_written = \<lparr>
     op_image = ''<IMAGE_NAME>'',
     op_tag = ''<IMAGE_TAG>'',
     op_instance_type = ''ml.p3dn.24xlarge'',
     op_instance_count = 2,
     op_region = [],
     op_subnets = [''<SUBNET_ID>''],
     op_security_group_ids = [''<SECURITY_GROUP_ID>''],
     op_job_name = ''smdataparallel-bert-tf2-fsx-2p3dn'',
     op_file_system_id = ''<FSX_ID>'',
     op_config_file = [],
     op_file_system_directory_path = ''<FSX_DIRECTORY_PATH>'',
     op_file_system_access_mode = ''rw'',
     op_file_system_type = ''FSxLustre'' \<rparr>"

section \<open>Cells shared by the two training notebooks\<close>

text \<open>
  \<^verbatim>\<open>image = "<ADD NAME OF REPO>"\<close>
  \<^verbatim>\<open>tag = "<ADD TAG FOR IMAGE>"\<close>
\<close>

definition cell_image_tag :: "operator \<Rightarrow> stmt" where
  "cell_image_tag p = run
     [bind_var (\<lambda>s. s\<lparr>image_var := Some (op_image p)\<rparr>),
      bind_var (\<lambda>s. s\<lparr>tag := Some (op_tag p)\<rparr>)]"

text \<open>
  \<^verbatim>\<open>%%time\<close>
  \<^verbatim>\<open>! chmod +x build_and_push.sh; bash build_and_push.sh {region} {image} {tag}\<close>

  IPython replaces each \<open>{name}\<close> by \<open>str\<close> of the variable and hands the text after the
  \<open>!\<close>, with its leading blank, to the system shell; when a name is unbound the line goes to
  the shell as it is written.
\<close>

definition build_and_push_line :: "ns \<Rightarrow> string" where
  "build_and_push_line s =
     (case region s of
        Some r \<Rightarrow>
          (case image_var s of
             Some i \<Rightarrow>
               (case tag s of
                  Some t \<Rightarrow>
                    '' chmod +x build_and_push.sh; bash build_and_push.sh ''
                      @ py_str r @ '' '' @ i @ '' '' @ t
                | None \<Rightarrow>
                    '' chmod +x build_and_push.sh; bash build_and_push.sh {region} {image} {tag}'')
           | None \<Rightarrow>
               '' chmod +x build_and_push.sh; bash build_and_push.sh {region} {image} {tag}'')
      | None \<Rightarrow>
          '' chmod +x build_and_push.sh; bash build_and_push.sh {region} {image} {tag}'')"

definition stmt_build_and_push :: stmt where
  "stmt_build_and_push s = shell (build_and_push_line s) s"

definition cell_build_and_push :: stmt where
  "cell_build_and_push = time_magic stmt_build_and_push"

definition cell_pygmentize :: stmt where
  "cell_pygmentize = run
     [shell ''pygmentize ./Dockerfile'',
      shell ''pygmentize ./build_and_push.sh'']"

text \<open>
  \<^verbatim>\<open>train_fs = FileSystemInput(file_system_id=file_system_id,\<close>
  \<^verbatim>\<open>                           file_system_type=file_system_type,\<close>
  \<^verbatim>\<open>                           directory_path=file_system_directory_path,\<close>
  \<^verbatim>\<open>                           file_system_access_mode=file_system_access_mode)\<close>
  \<^verbatim>\<open>data_channels = {'train': train_fs}\<close>
\<close>

definition stmt_FileSystemInput :: "world \<Rightarrow> stmt" where
  "stmt_FileSystemInput w =
     read file_system_id ''file_system_id'' (\<lambda>fid.
     read file_system_type ''file_system_type'' (\<lambda>ftype.
     read file_system_directory_path ''file_system_directory_path'' (\<lambda>path.
     read file_system_access_mode ''file_system_access_mode'' (\<lambda>mode.
       let kw = \<lparr> kw_file_system_id = fid, kw_file_system_type = ftype,
                  kw_directory_path = path, kw_file_system_access_mode = mode \<rparr>
       in extern_unit (Call_FileSystemInput kw) (w_FileSystemInput w kw)
            (bind_var (\<lambda>s. s\<lparr>train_fs := Some (FileSystemInput kw)\<rparr>))))))"

definition stmt_data_channels :: stmt where
  "stmt_data_channels =
     read train_fs ''train_fs'' (\<lambda>fs.
       bind_var (\<lambda>s. s\<lparr>data_channels := Some [(''train'', fs)]\<rparr>))"

definition cell_fs_input :: "world \<Rightarrow> operator \<Rightarrow> stmt" where
  "cell_fs_input w p = run
     [bind_var (\<lambda>s. s\<lparr>file_system_directory_path := Some (op_file_system_directory_path p)\<rparr>),
      bind_var (\<lambda>s. s\<lparr>file_system_access_mode := Some (op_file_system_access_mode p)\<rparr>),
      bind_var (\<lambda>s. s\<lparr>file_system_type := Some (op_file_system_type p)\<rparr>),
      stmt_FileSystemInput w,
      stmt_data_channels]"

text \<open>
  \<^verbatim>\<open>estimator.fit(inputs=data_channels, job_name=job_name)\<close>

  The cell passes neither \<open>wait\<close> nor \<open>logs\<close>, so \<open>fit\<close> runs as the SDK declares it by
  default.
\<close>

text \<open>
  Modelled from the spec: the SDK's \<open>fit\<close> is not in the repository. Sections 2, 4 and 5 say
  that job submission submits the job descriptor and the input-channel bindings and blocks
  until the platform reports the job's terminal state, completion or failure, the polling
  being inside the SDK. So \<open>fit\<close> called as above first submits (\<open>Call_fit\<close>) and, when the
  submission is accepted, returns only once the terminal state is reported (\<open>Job_terminal\<close>),
  raising when that state is a failure.
\<close>

definition sdk_fit ::
  "world \<Rightarrow> estimator_obj \<Rightarrow> (string \<times> fs_input_obj) list \<Rightarrow> string \<Rightarrow> stmt" where
  "sdk_fit w est chans jn =
     extern_unit (Call_fit est chans jn) (w_fit w est chans jn)
       (extern_unit (Job_terminal est chans jn) (w_job_terminal w est chans jn)
          (bind_var (\<lambda>s. s)))"

definition cell_fit :: "world \<Rightarrow> stmt" where
  "cell_fit w =
     read estimator ''estimator'' (\<lambda>est.
     read data_channels ''data_channels'' (\<lambda>chans.
     read job_name ''job_name'' (\<lambda>jn. sdk_fit w est chans jn)))"

text \<open>The distribution argument of both estimators:
  \<^verbatim>\<open>{'smdistributed': {'dataparallel': {'enabled': True}}}\<close>\<close>

definition distribution :: "(string \<times> pyval) list" where
  "distribution = [(''smdistributed'', PDict [(''dataparallel'', PDict [(''enabled'', PBool True)])])]"

section \<open>The MaskRCNN notebook\<close>

text \<open>
  \<^verbatim>\<open>%%time\<close>
  \<^verbatim>\<open>! python3 -m pip install --upgrade sagemaker\<close>
  \<^verbatim>\<open>sagemaker_session = sagemaker.Session()\<close>
  \<^verbatim>\<open>bucket = sagemaker_session.default_bucket()\<close>
  \<^verbatim>\<open>role = get_execution_role()\<close>
  \<^verbatim>\<open>role_name = role.split(['/'][-1])\<close>
  \<^verbatim>\<open>client = boto3.client('sts')\<close>
  \<^verbatim>\<open>account = client.get_caller_identity()['Account']\<close>
  \<^verbatim>\<open>session = boto3.session.Session()\<close>
  \<^verbatim>\<open>region = session.region_name\<close>

  \<open>['/'][-1]\<close> is the last element of a one-element list, the string \<open>'/'\<close>.
\<close>

definition stmt_sagemaker_session :: "world \<Rightarrow> stmt" where
  "stmt_sagemaker_session w =
     extern_unit Call_sagemaker_Session (w_sagemaker_Session w)
       (bind_var (\<lambda>s. s\<lparr>sagemaker_session := Some SagemakerSession\<rparr>))"

definition stmt_bucket :: "world \<Rightarrow> stmt" where
  "stmt_bucket w =
     read sagemaker_session ''sagemaker_session'' (\<lambda>_.
       extern Call_default_bucket (w_default_bucket w)
         (\<lambda>b. bind_var (\<lambda>s. s\<lparr>bucket := Some b\<rparr>)))"

definition stmt_role :: "world \<Rightarrow> stmt" where
  "stmt_role w =
     extern Call_get_execution_role (w_get_execution_role w)
       (\<lambda>r. bind_var (\<lambda>s. s\<lparr>role := Some r\<rparr>))"

definition stmt_role_name :: stmt where
  "stmt_role_name =
     read role ''role'' (\<lambda>r.
       bind_var (\<lambda>s. s\<lparr>role_name := Some (str_split (CHR ''/'') r)\<rparr>))"

definition stmt_client :: "world \<Rightarrow> stmt" where
  "stmt_client w =
     extern_unit (Call_boto3_client ''sts'') (w_boto3_client w ''sts'')
       (bind_var (\<lambda>s. s\<lparr>client := Some (BotoClient ''sts'')\<rparr>))"

definition stmt_account :: "world \<Rightarrow> stmt" where
  "stmt_account w =
     read client ''client'' (\<lambda>_.
       extern Call_get_caller_identity (w_get_caller_identity w)
         (\<lambda>a. bind_var (\<lambda>s. s\<lparr>account := Some a\<rparr>)))"

definition stmt_session :: "world \<Rightarrow> stmt" where
  "stmt_session w =
     extern_unit Call_boto3_Session (w_boto3_Session w)
       (bind_var (\<lambda>s. s\<lparr>session := Some BotoSession\<rparr>))"

definition stmt_region :: "world \<Rightarrow> stmt" where
  "stmt_region w =
     read session ''session'' (\<lambda>_.
       bind_var (\<lambda>s. s\<lparr>region := Some (w_region_name w)\<rparr>))"

definition maskrcnn_cell_setup :: "world \<Rightarrow> stmt" where
  "maskrcnn_cell_setup w = time_magic (run
     [shell '' python3 -m pip install --upgrade sagemaker'',
      stmt_sagemaker_session w,
      stmt_bucket w,
      stmt_role w,
      stmt_role_name,
      stmt_client w,
      stmt_account w,
      stmt_session w,
      stmt_region w])"

text \<open>
  \<^verbatim>\<open>instance_type = "ml.p3dn.24xlarge"\<close>
  \<^verbatim>\<open>instance_count = 2\<close>
  \<^verbatim>\<open>docker_image = f"{account}.dkr.ecr.{region}.amazonaws.com/{image}:{tag}"\<close>
  \<^verbatim>\<open>region = '<REGION>'\<close>
  \<^verbatim>\<open>username = 'AWS'\<close>
  \<^verbatim>\<open>subnets=['<SUBNET_ID>']\<close>
  \<^verbatim>\<open>security_group_ids=['<SECURITY_GROUP_ID>']\<close>
  \<^verbatim>\<open>job_name = 'pytorch-smdataparallel-mrcnn-fsx'\<close>
  \<^verbatim>\<open>file_system_id= '<FSX_ID>'\<close>
  \<^verbatim>\<open>config_file = 'e2e_mask_rcnn_R_50_FPN_1x_16GPU_4bs.yaml'\<close>
\<close>

definition stmt_docker_image :: stmt where
  "stmt_docker_image =
     read account ''account'' (\<lambda>a.
     read region ''region'' (\<lambda>r.
     read image_var ''image'' (\<lambda>i.
     read tag ''tag'' (\<lambda>t.
       bind_var (\<lambda>s. s\<lparr>docker_image :=
         Some (a @ ''.dkr.ecr.'' @ py_str r @ ''.amazonaws.com/'' @ i @ '':'' @ t)\<rparr>)))))"

definition maskrcnn_cell_config :: "operator \<Rightarrow> stmt" where
  "maskrcnn_cell_config p = run
     [bind_var (\<lambda>s. s\<lparr>instance_type := Some (op_instance_type p)\<rparr>),
      bind_var (\<lambda>s. s\<lparr>instance_count := Some (op_instance_count p)\<rparr>),
      stmt_docker_image,
      bind_var (\<lambda>s. s\<lparr>region := Some (Some (op_region p))\<rparr>),
      bind_var (\<lambda>s. s\<lparr>username := Some ''AWS''\<rparr>),
      bind_var (\<lambda>s. s\<lparr>subnets := Some (op_subnets p)\<rparr>),
      bind_var (\<lambda>s. s\<lparr>security_group_ids := Some (op_security_group_ids p)\<rparr>),
      bind_var (\<lambda>s. s\<lparr>job_name := Some (op_job_name p)\<rparr>),
      bind_var (\<lambda>s. s\<lparr>file_system_id := Some (op_file_system_id p)\<rparr>),
      bind_var (\<lambda>s. s\<lparr>config_file := Some (op_config_file p)\<rparr>)]"

text \<open>
  \<^verbatim>\<open>hyperparameters = {\<close>
  \<^verbatim>\<open> "config-file": config_file,\<close>
  \<^verbatim>\<open> "skip-test": "",\<close>
  \<^verbatim>\<open> "seed": 987,\<close>
  \<^verbatim>\<open> "dtype": "float16",\<close>
  \<^verbatim>\<open> }\<close>
\<close>

definition maskrcnn_cell_hyperparameters :: stmt where
  "maskrcnn_cell_hyperparameters =
     read config_file ''config_file'' (\<lambda>cf.
       bind_var (\<lambda>s. s\<lparr>hyperparameters := Some
         [(''config-file'', PStr cf),
          (''skip-test'', PStr []),
          (''seed'', PInt 987),
          (''dtype'', PStr ''float16'')]\<rparr>))"

text \<open>
  \<^verbatim>\<open>estimator = PyTorch(entry_point='train_pytorch_smdataparallel_maskrcnn.py',\<close>
  \<^verbatim>\<open>                    role=role,\<close>
  \<^verbatim>\<open>                    image_uri=docker_image,\<close>
  \<^verbatim>\<open>                    source_dir='.',\<close>
  \<^verbatim>\<open>                    instance_count=instance_count,\<close>
  \<^verbatim>\<open>                    instance_type=instance_type,\<close>
  \<^verbatim>\<open>                    framework_version='1.8.1',\<close>
  \<^verbatim>\<open>                    py_version='py36',\<close>
  \<^verbatim>\<open>                    sagemaker_session=sagemaker_session,\<close>
  \<^verbatim>\<open>                    hyperparameters=hyperparameters,\<close>
  \<^verbatim>\<open>                    subnets=subnets,\<close>
  \<^verbatim>\<open>                    security_group_ids=security_group_ids,\<close>
  \<^verbatim>\<open>                    debugger_hook_config=False,\<close>
  \<^verbatim>\<open>                    distribution={'smdistributed':{'dataparallel':{'enabled': True}}})\<close>

  Python evaluates the arguments in the order they are written.
\<close>

definition maskrcnn_cell_estimator :: "world \<Rightarrow> stmt" where
  "maskrcnn_cell_estimator w =
     read role ''role'' (\<lambda>r.
     read docker_image ''docker_image'' (\<lambda>img.
     read instance_count ''instance_count'' (\<lambda>n.
     read instance_type ''instance_type'' (\<lambda>ty.
     read sagemaker_session ''sagemaker_session'' (\<lambda>ss.
     read hyperparameters ''hyperparameters'' (\<lambda>hp.
     read subnets ''subnets'' (\<lambda>sn.
     read security_group_ids ''security_group_ids'' (\<lambda>sg.
       let kw = \<lparr> kw_entry_point = ''train_pytorch_smdataparallel_maskrcnn.py'',
                  kw_role = r,
                  kw_image_uri = img,
                  kw_source_dir = ''.'',
                  kw_instance_count = n,
                  kw_instance_type = ty,
                  kw_framework_version = ''1.8.1'',
                  kw_py_version = ''py36'',
                  kw_sagemaker_session = ss,
                  kw_hyperparameters = hp,
                  kw_subnets = sn,
                  kw_security_group_ids = sg,
                  kw_debugger_hook_config = False,
                  kw_distribution = distribution \<rparr>
       in extern_unit (Call_estimator (PyTorch kw)) (w_estimator w (PyTorch kw))
            (bind_var (\<lambda>s. s\<lparr>estimator := Some (PyTorch kw)\<rparr>))))))))))"

text \<open>The notebook: its code cells in order, from an empty namespace.\<close>

definition maskrcnn_cells :: "world \<Rightarrow> operator \<Rightarrow> stmt list" where
  "maskrcnn_cells w p =
     [maskrcnn_cell_setup w,
      cell_image_tag p,
      cell_pygmentize,
      cell_build_and_push,
      maskrcnn_cell_config p,
      maskrcnn_cell_hyperparameters,
      maskrcnn_cell_estimator w,
      cell_fs_input w p,
      cell_fit w]"

definition maskrcnn_notebook :: "world \<Rightarrow> operator \<Rightarrow> outcome" where
  "maskrcnn_notebook w p = run (maskrcnn_cells w p) fresh"

section \<open>The BERT notebook\<close>

text \<open>The first cell is that of the MaskRCNN notebook, \<open>%%time\<close> included, without
  \<open>role_name\<close>.\<close>

definition bert_cell_setup :: "world \<Rightarrow> stmt" where
  "bert_cell_setup w = time_magic (run
     [shell '' python3 -m pip install --upgrade sagemaker'',
      stmt_sagemaker_session w,
      stmt_bucket w,
      stmt_role w,
      stmt_client w,
      stmt_account w,
      stmt_session w,
      stmt_region w])"

text \<open>
  \<^verbatim>\<open>!rm -rf deep-learning-models\<close>
  \<^verbatim>\<open>!git clone --recursive https://github.com/HerringForks/deep-learning-models.git\<close>
\<close>

definition bert_cell_clone :: stmt where
  "bert_cell_clone = run
     [shell ''rm -rf deep-learning-models'',
      shell ''git clone --recursive https://github.com/HerringForks/deep-learning-models.git'']"

text \<open>
  \<^verbatim>\<open>instance_type = "ml.p3dn.24xlarge"\<close>
  \<^verbatim>\<open>instance_count = 2\<close>
  \<^verbatim>\<open>docker_image = f"{account}.dkr.ecr.{region}.amazonaws.com/{image}:{tag}"\<close>
  \<^verbatim>\<open>username = 'AWS'\<close>
  \<^verbatim>\<open>subnets = ['<SUBNET_ID>']\<close>
  \<^verbatim>\<open>security_group_ids = ['<SECURITY_GROUP_ID>']\<close>
  \<^verbatim>\<open>job_name = 'smdataparallel-bert-tf2-fsx-2p3dn'\<close>
  \<^verbatim>\<open>file_system_id = '<FSX_ID>'\<close>
\<close>

definition bert_cell_config :: "operator \<Rightarrow> stmt" where
  "bert_cell_config p = run
     [bind_var (\<lambda>s. s\<lparr>instance_type := Some (op_instance_type p)\<rparr>),
      bind_var (\<lambda>s. s\<lparr>instance_count := Some (op_instance_count p)\<rparr>),
      stmt_docker_image,
      bind_var (\<lambda>s. s\<lparr>username := Some ''AWS''\<rparr>),
      bind_var (\<lambda>s. s\<lparr>subnets := Some (op_subnets p)\<rparr>),
      bind_var (\<lambda>s. s\<lparr>security_group_ids := Some (op_security_group_ids p)\<rparr>),
      bind_var (\<lambda>s. s\<lparr>job_name := Some (op_job_name p)\<rparr>),
      bind_var (\<lambda>s. s\<lparr>file_system_id := Some (op_file_system_id p)\<rparr>)]"

text \<open>
  \<^verbatim>\<open>SM_DATA_ROOT = '/opt/ml/input/data/train'\<close>
  \<^verbatim>\<open>hyperparameters={\<close>
  \<^verbatim>\<open>    "train_dir": '/'.join([SM_DATA_ROOT, 'tfrecords/train/max_seq_len_128_...']),\<close>
  \<^verbatim>\<open>    ...\<close>
  \<^verbatim>\<open>    "run_name" : job_name,\<close>
  \<^verbatim>\<open>    "squad_frequency": 0\<close>
  \<^verbatim>\<open>    }\<close>
\<close>

definition bert_stmt_hyperparameters :: stmt where
  "bert_stmt_hyperparameters =
     read SM_DATA_ROOT ''SM_DATA_ROOT'' (\<lambda>root.
     read job_name ''job_name'' (\<lambda>jn.
       bind_var (\<lambda>s. s\<lparr>hyperparameters := Some
         [(''train_dir'', PStr (str_join ''/'' [root,
             ''tfrecords/train/max_seq_len_128_max_predictions_per_seq_20_masked_lm_prob_15''])),
          (''val_dir'', PStr (str_join ''/'' [root,
             ''tfrecords/validation/max_seq_len_128_max_predictions_per_seq_20_masked_lm_prob_15''])),
          (''log_dir'', PStr (str_join ''/'' [root, ''checkpoints/bert/logs''])),
          (''checkpoint_dir'', PStr (str_join ''/'' [root, ''checkpoints/bert''])),
          (''load_from'', PStr ''scratch''),
          (''model_type'', PStr ''bert''),
          (''model_size'', PStr ''large''),
          (''per_gpu_batch_size'', PInt 64),
          (''max_seq_length'', PInt 128),
          (''max_predictions_per_seq'', PInt 20),
          (''optimizer'', PStr ''lamb''),
          (''learning_rate'', PFloat ''0.005''),
          (''end_learning_rate'', PFloat ''0.0003''),
          (''hidden_dropout_prob'', PFloat ''0.1''),
          (''attention_probs_dropout_prob'', PFloat ''0.1''),
          (''gradient_accumulation_steps'', PInt 1),
          (''learning_rate_decay_power'', PFloat ''0.5''),
          (''warmup_steps'', PInt 2812),
          (''total_steps'', PInt 2000),
          (''log_frequency'', PInt 10),
          (''run_name'', PStr jn),
          (''squad_frequency'', PInt 0)]\<rparr>)))"

definition bert_cell_hyperparameters :: stmt where
  "bert_cell_hyperparameters = run
     [bind_var (\<lambda>s. s\<lparr>SM_DATA_ROOT := Some ''/opt/ml/input/data/train''\<rparr>),
      bert_stmt_hyperparameters]"

text \<open>
  \<^verbatim>\<open>estimator = TensorFlow(entry_point='albert/run_pretraining.py',\<close>
  \<^verbatim>\<open>                       role=role,\<close>
  \<^verbatim>\<open>                       image_uri=docker_image,\<close>
  \<^verbatim>\<open>                       source_dir='deep-learning-models/models/nlp',\<close>
  \<^verbatim>\<open>                       framework_version='2.4.1',\<close>
  \<^verbatim>\<open>                       py_version='py37',\<close>
  \<^verbatim>\<open>                       instance_count=instance_count,\<close>
  \<^verbatim>\<open>                       instance_type=instance_type,\<close>
  \<^verbatim>\<open>                       sagemaker_session=sagemaker_session,\<close>
  \<^verbatim>\<open>                       subnets=subnets,\<close>
  \<^verbatim>\<open>                       hyperparameters=hyperparameters,\<close>
  \<^verbatim>\<open>                       security_group_ids=security_group_ids,\<close>
  \<^verbatim>\<open>                       debugger_hook_config=False,\<close>
  \<^verbatim>\<open>                       distribution={'smdistributed':{'dataparallel':{'enabled': True}}})\<close>
\<close>

definition bert_cell_estimator :: "world \<Rightarrow> stmt" where
  "bert_cell_estimator w =
     read role ''role'' (\<lambda>r.
     read docker_image ''docker_image'' (\<lambda>img.
     read instance_count ''instance_count'' (\<lambda>n.
     read instance_type ''instance_type'' (\<lambda>ty.
     read sagemaker_session ''sagemaker_session'' (\<lambda>ss.
     read subnets ''subnets'' (\<lambda>sn.
     read hyperparameters ''hyperparameters'' (\<lambda>hp.
     read security_group_ids ''security_group_ids'' (\<lambda>sg.
       let kw = \<lparr> kw_entry_point = ''albert/run_pretraining.py'',
                  kw_role = r,
                  kw_image_uri = img,
                  kw_source_dir = ''deep-learning-models/models/nlp'',
                  kw_instance_count = n,
                  kw_instance_type = ty,
                  kw_framework_version = ''2.4.1'',
                  kw_py_version = ''py37'',
                  kw_sagemaker_session = ss,
                  kw_hyperparameters = hp,
                  kw_subnets = sn,
                  kw_security_group_ids = sg,
                  kw_debugger_hook_config = False,
                  kw_distribution = distribution \<rparr>
       in extern_unit (Call_estimator (TensorFlow kw)) (w_estimator w (TensorFlow kw))
            (bind_var (\<lambda>s. s\<lparr>estimator := Some (TensorFlow kw)\<rparr>))))))))))"

definition bert_cells :: "world \<Rightarrow> operator \<Rightarrow> stmt list" where
  "bert_cells w p =
     [bert_cell_setup w,
      cell_image_tag p,
      cell_pygmentize,
      cell_build_and_push,
      bert_cell_clone,
      bert_cell_config p,
      bert_cell_hyperparameters,
      bert_cell_estimator w,
      cell_fs_input w p,
      cell_fit w]"

definition bert_notebook :: "world \<Rightarrow> operator \<Rightarrow> outcome" where
  "bert_notebook w p = run (bert_cells w p) fresh"

section \<open>The deployment notebook\<close>

text \<open>
  \<^verbatim>\<open>def copy_model_from_public_bucket():\<close>
  \<^verbatim>\<open>    s3 = boto3.client('s3')\<close>
  \<^verbatim>\<open>    public_bucket="sagemaker-sample-files"\<close>
  \<^verbatim>\<open>    key = "datasets/image/MNIST/model/model.tar.gz"\<close>
  \<^verbatim>\<open>    with open(os.path.join('/tmp', 'model.tar.gz'), 'wb') as f:\<close>
  \<^verbatim>\<open>        s3.download_fileobj(public_bucket, key, f)\<close>
  \<^verbatim>\<open>    default_bucket = sagemaker.Session().default_bucket()\<close>
  \<^verbatim>\<open>    with open(os.path.join('/tmp', 'model.tar.gz'), 'rb') as f:\<close>
  \<^verbatim>\<open>        s3.upload_fileobj(f, default_bucket, key)\<close>
  \<^verbatim>\<open>    return 's3://' + default_bucket + '/' + key\<close>

  The function's variables are local; \<open>ret\<close> is what the caller does with the value returned.
\<close>

definition copy_model_from_public_bucket :: "world \<Rightarrow> (string \<Rightarrow> stmt) \<Rightarrow> stmt" where
  "copy_model_from_public_bucket w ret =
     extern_unit (Call_boto3_client ''s3'') (w_boto3_client w ''s3'')
       (let public_bucket = ''sagemaker-sample-files'';
            key = ''datasets/image/MNIST/model/model.tar.gz''
        in extern_unit (Call_open ''/tmp/model.tar.gz'' ''wb'') (w_open w ''/tmp/model.tar.gz'' ''wb'')
          (extern_unit (Call_download_fileobj public_bucket key)
               (w_download_fileobj w public_bucket key)
          (extern_unit Call_sagemaker_Session (w_sagemaker_Session w)
          (extern Call_default_bucket (w_default_bucket w) (\<lambda>default_bucket.
           extern_unit (Call_open ''/tmp/model.tar.gz'' ''rb'') (w_open w ''/tmp/model.tar.gz'' ''rb'')
          (extern_unit (Call_upload_fileobj default_bucket key)
               (w_upload_fileobj w default_bucket key)
          (ret (''s3://'' @ default_bucket @ ''/'' @ key))))))))"

text \<open>
  \<^verbatim>\<open>%store -r model_data\<close>
  \<^verbatim>\<open>try:\<close>
  \<^verbatim>\<open>    model_data\<close>
  \<^verbatim>\<open>except NameError:\<close>
  \<^verbatim>\<open>    model_data = copy_model_from_public_bucket()\<close>

  \<open>%store -r\<close> binds the variable when the store has it and otherwise only prints a message.
\<close>

definition stmt_store_restore :: "world \<Rightarrow> stmt" where
  "stmt_store_restore w =
     (case w_stored_model_data w of
        None \<Rightarrow> bind_var (\<lambda>s. s)
      | Some v \<Rightarrow> bind_var (\<lambda>s. s\<lparr>model_data := Some v\<rparr>))"

definition try_except_NameError :: "stmt \<Rightarrow> stmt \<Rightarrow> stmt" where
  "try_except_NameError body handler s =
     (case body s of
        Completed s' \<Rightarrow> Completed s'
      | Raised (NameError nm) s' \<Rightarrow> handler s'
      | Raised (External x) s' \<Rightarrow> Raised (External x) s')"

definition stmt_model_data :: "world \<Rightarrow> stmt" where
  "stmt_model_data w =
     try_except_NameError
       (read model_data ''model_data'' (\<lambda>_. bind_var (\<lambda>s. s)))
       (copy_model_from_public_bucket w (\<lambda>uri. bind_var (\<lambda>s. s\<lparr>model_data := Some uri\<rparr>)))"

definition deploy_cell_model_data :: "world \<Rightarrow> stmt" where
  "deploy_cell_model_data w = run [stmt_store_restore w, stmt_model_data w]"

text \<open>
  \<^verbatim>\<open>role = sagemaker.get_execution_role()\<close>
  \<^verbatim>\<open>model = TensorFlowModel(model_data=model_data, role=role, framework_version='2.3')\<close>
\<close>

definition stmt_TensorFlowModel :: "world \<Rightarrow> stmt" where
  "stmt_TensorFlowModel w =
     read model_data ''model_data'' (\<lambda>md.
     read role ''role'' (\<lambda>r.
       let kw = \<lparr> kw_model_data = md, kw_model_role = r, kw_model_framework_version = ''2.3'' \<rparr>
       in extern_unit (Call_TensorFlowModel kw) (w_TensorFlowModel w kw)
            (bind_var (\<lambda>s. s\<lparr>model := Some (TensorFlowModel kw)\<rparr>))))"

definition deploy_cell_model :: "world \<Rightarrow> stmt" where
  "deploy_cell_model w = run [stmt_role w, stmt_TensorFlowModel w]"

text \<open>
  \<^verbatim>\<open>predictor = model.deploy(initial_instance_count=1, instance_type='ml.m4.xlarge')\<close>

  What the hosting service does with its endpoints on \<open>deploy\<close> and on \<open>delete_endpoint\<close> is
  not part of the repository: the model records the two calls and their answers only.
\<close>

definition deploy_cell_deploy :: "world \<Rightarrow> stmt" where
  "deploy_cell_deploy w =
     read model ''model'' (\<lambda>m.
       extern_unit (Call_deploy m 1 ''ml.m4.xlarge'') (w_deploy w m 1 ''ml.m4.xlarge'')
         (bind_var (\<lambda>s. s\<lparr>predictor := Some (Predictor m 1 ''ml.m4.xlarge'')\<rparr>)))"

text \<open>
  \<^verbatim>\<open>predictor.delete_endpoint()\<close>
\<close>

definition deploy_cell_cleanup :: "world \<Rightarrow> stmt" where
  "deploy_cell_cleanup w =
     read predictor ''predictor'' (\<lambda>pr.
       extern_unit (Call_delete_endpoint pr) (w_delete_endpoint w pr) (bind_var (\<lambda>s. s)))"

definition deploy_cells :: "world \<Rightarrow> stmt list" where
  "deploy_cells w =
     [deploy_cell_model_data w,
      deploy_cell_model w,
      deploy_cell_deploy w,
      deploy_cell_cleanup w]"

definition deploy_notebook :: "world \<Rightarrow> outcome" where
  "deploy_notebook w = run (deploy_cells w) fresh"

section \<open>What the shell makes of a line\<close>

text \<open>
  The line of \<open>cell_build_and_push\<close> reaches the system shell as one string; which arguments
  \<open>build_and_push.sh\<close> receives is decided there. The model covers the lines made of word
  characters (letters, digits and \<open>- _ . / : +\<close>, which the shell passes on as they are),
  blanks and \<open>;\<close>: the shell separates commands at \<open>;\<close> and the words of a command at runs of
  blanks, and it rejects the whole line, running nothing, when a \<open>;\<close> follows a command
  without words. On any other character (quotes, redirections, expansions) and on a rejected
  line the model gives \<open>None\<close>.
\<close>

definition is_blank :: "char \<Rightarrow> bool" where
  "is_blank c = (c = CHR '' '' \<or> c = CHR 0x09)"

definition word_char :: "char \<Rightarrow> bool" where
  "word_char c =
     (c \<in> set ''abcdefghijklmnopqrstuvwxyzABCDEFGHIJKLMNOPQRSTUVWXYZ0123456789-_./:+'')"

text \<open>The pieces between the characters that satisfy \<open>P\<close>.\<close>

fun fields :: "(char \<Rightarrow> bool) \<Rightarrow> string \<Rightarrow> string list" where
  "fields P [] = [[]]"
| "fields P (c # cs) =
     (if P c then [] # fields P cs
      else (case fields P cs of [] \<Rightarrow> [[c]] | f # fs \<Rightarrow> (c # f) # fs))"

definition shell_words :: "string \<Rightarrow> string list" where
  "shell_words cmd = filter (\<lambda>wd. wd \<noteq> []) (fields is_blank cmd)"

definition shell_commands :: "string \<Rightarrow> string list list" where
  "shell_commands line = map shell_words (fields (\<lambda>c. c = CHR '';'') line)"

text \<open>The positional arguments of each run of \<open>bash build_and_push.sh\<close> in a line.\<close>

definition script_args :: "string \<Rightarrow> string list list option" where
  "script_args line =
     (if list_all (\<lambda>c. word_char c \<or> is_blank c \<or> c = CHR '';'') line
        \<and> list_all (\<lambda>ws. ws \<noteq> []) (butlast (shell_commands line))
      then Some (map (drop 2)
             (filter (\<lambda>ws. take 2 ws = [''bash'', ''build_and_push.sh'']) (shell_commands line)))
      else None)"

text \<open>The same over all shell lines of a run, in order.\<close>

fun script_invocations :: "call list \<Rightarrow> string list list option" where
  "script_invocations [] = Some []"
| "script_invocations (Shell line # cs) =
     (case script_args line of
        None \<Rightarrow> None
      | Some a \<Rightarrow> (case script_invocations cs of None \<Rightarrow> None | Some b \<Rightarrow> Some (a @ b)))"
| "script_invocations (c # cs) = script_invocations cs"

definition inert :: "string \<Rightarrow> bool" where
  "inert x = (x \<noteq> [] \<and> list_all word_char x)"

section \<open>Worlds in which a step succeeds\<close>

text \<open>None of the six calls in the first cell of a training notebook raises.\<close>

definition setup_ok :: "world \<Rightarrow> bool" where
  "setup_ok w =
     (w_sagemaker_Session w = None \<and> \<not> isl (w_default_bucket w)
      \<and> \<not> isl (w_get_execution_role w) \<and> w_boto3_client w ''sts'' = None
      \<and> \<not> isl (w_get_caller_identity w) \<and> w_boto3_Session w = None)"

text \<open>The exception, if any, with which the outside answers a call.\<close>

fun answer :: "world \<Rightarrow> call \<Rightarrow> string option" where
  "answer w (Shell line) = None"
| "answer w Call_sagemaker_Session = w_sagemaker_Session w"
| "answer w Call_default_bucket = (case w_default_bucket w of Inl x \<Rightarrow> Some x | Inr b \<Rightarrow> None)"
| "answer w Call_get_execution_role =
     (case w_get_execution_role w of Inl x \<Rightarrow> Some x | Inr r \<Rightarrow> None)"
| "answer w (Call_boto3_client service) = w_boto3_client w service"
| "answer w Call_get_caller_identity =
     (case w_get_caller_identity w of Inl x \<Rightarrow> Some x | Inr a \<Rightarrow> None)"
| "answer w Call_boto3_Session = w_boto3_Session w"
| "answer w (Call_estimator e) = w_estimator w e"
| "answer w (Call_FileSystemInput kw) = w_FileSystemInput w kw"
| "answer w (Call_fit e chans jn) = w_fit w e chans jn"
| "answer w (Job_terminal e chans jn) = w_job_terminal w e chans jn"
| "answer w (Call_open path mode) = w_open w path mode"
| "answer w (Call_download_fileobj b k) = w_download_fileobj w b k"
| "answer w (Call_upload_fileobj b k) = w_upload_fileobj w b k"
| "answer w (Call_TensorFlowModel kw) = w_TensorFlowModel w kw"
| "answer w (Call_deploy m n ty) = w_deploy w m n ty"
| "answer w (Call_delete_endpoint pr) = w_delete_endpoint w pr"

text \<open>The keyword arguments an estimator was made with.\<close>

fun kwargs_of :: "estimator_obj \<Rightarrow> est_kwargs" where
  "kwargs_of (PyTorch kw) = kw"
| "kwargs_of (TensorFlow kw) = kw"

text \<open>A world in which no call raises, for the examples: account \<open>123456789012\<close> in region
  \<open>us-west-2\<close>, nothing in IPython's store.\<close>

definition quiet_world :: world where
  "quiet_world = \<lparr>
     w_sagemaker_Session = None,
     w_default_bucket = Inr ''sagemaker-us-west-2-123456789012'',
     w_get_execution_role = Inr ''arn:aws:iam::123456789012:role/service-role/Notebook'',
     w_boto3_client = (\<lambda>service. None),
     w_get_caller_identity = Inr ''123456789012'',
     w_boto3_Session = None,
     w_region_name = Some ''us-west-2'',
     w_estimator = (\<lambda>e. None),
     w_FileSystemInput = (\<lambda>kw. None),
     w_fit = (\<lambda>e chans jn. None),
     w_job_terminal = (\<lambda>e chans jn. None),
     w_stored_model_data = None,
     w_open = (\<lambda>path mode. None),
     w_download_fileobj = (\<lambda>b k. None),
     w_upload_fileobj = (\<lambda>b k. None),
     w_TensorFlowModel = (\<lambda>kw. None),
     w_deploy = (\<lambda>m n ty. None),
     w_delete_endpoint = (\<lambda>pr. None) \<rparr>"

text \<open>An operator who has replaced the placeholders of the MaskRCNN notebook by the examples
  its comments give.\<close>

definition maskrcnn_filled_in :: operator where
  "maskrcnn_filled_in = \<lparr>
     op_image = ''mask-rcnn-smdataparallel-sagemaker'',
     op_tag = ''pt1.8'',
     op_instance_type = ''ml.p3dn.24xlarge'',
     op_instance_count = 2,
     op_region = ''us-west-2'',
     op_subnets = [''subnet-0f9XXXX''],
     op_security_group_ids = [''sg-03ZZZZZZ''],
     op_job_name = ''pytorch-smdataparallel-mrcnn-fsx'',
     op_file_system_id = ''fs-0bYYYYYY'',
     op_config_file = ''e2e_mask_rcnn_R_50_FPN_1x_16GPU_4bs.yaml'',
     op_file_system_directory_path = ''/fsx/mask_rcnn/PyTorch'',
     op_file_system_access_mode = ''ro'',
     op_file_system_type = ''FSxLustre'' \<rparr>"

section \<open>How a notebook runs\<close>

lemmas stmt_defs = read_def bind_var_def extern_def extern_unit_def shell_def time_magic_def
  Let_def

lemmas setup_defs = maskrcnn_cell_setup_def bert_cell_setup_def stmt_sagemaker_session_def
  stmt_bucket_def stmt_role_def stmt_role_name_def stmt_client_def stmt_account_def
  stmt_session_def stmt_region_def

lemmas mid_defs = cell_image_tag_def cell_pygmentize_def cell_build_and_push_def
  stmt_build_and_push_def maskrcnn_cell_config_def maskrcnn_cell_hyperparameters_def
  stmt_docker_image_def build_and_push_line_def bert_cell_clone_def bert_cell_config_def
  bert_cell_hyperparameters_def bert_stmt_hyperparameters_def

lemmas late_defs = maskrcnn_cell_estimator_def bert_cell_estimator_def cell_fs_input_def
  cell_fit_def sdk_fit_def stmt_FileSystemInput_def stmt_data_channels_def

lemmas deploy_defs = deploy_cell_model_data_def deploy_cell_model_def deploy_cell_deploy_def
  deploy_cell_cleanup_def stmt_store_restore_def stmt_model_data_def try_except_NameError_def
  copy_model_from_public_bucket_def stmt_TensorFlowModel_def

lemma fresh_sel [simp]:
  "sagemaker_session fresh = None" "bucket fresh = None" "role fresh = None"
  "role_name fresh = None" "client fresh = None" "account fresh = None" "session fresh = None"
  "region fresh = None" "image_var fresh = None" "tag fresh = None" "instance_type fresh = None"
  "instance_count fresh = None" "docker_image fresh = None" "username fresh = None"
  "subnets fresh = None" "security_group_ids fresh = None" "job_name fresh = None"
  "file_system_id fresh = None" "config_file fresh = None" "SM_DATA_ROOT fresh = None"
  "hyperparameters fresh = None" "estimator fresh = None"
  "file_system_directory_path fresh = None" "file_system_access_mode fresh = None"
  "file_system_type fresh = None" "train_fs fresh = None" "data_channels fresh = None"
  "model_data fresh = None" "model fresh = None" "predictor fresh = None" "trace fresh = []"
  "shown fresh = []"
  by (simp_all add: fresh_def)

text \<open>\<open>s.split(sep)\<close> always has a last element, so \<open>role_name[-1]\<close>, which the first cell of
  the MaskRCNN notebook prints, cannot raise.\<close>

lemma str_split_nonempty: "str_split sep s \<noteq> []"
  by (induction s) (auto split: list.splits)

lemma run_append:
  "run (cs @ ds) s =
     (case run cs s of Completed s' \<Rightarrow> run ds s' | Raised e s' \<Rightarrow> Raised e s')"
  by (induction cs arbitrary: s) (auto split: outcome.splits)

lemma run_after: "c s = Completed s' \<Longrightarrow> run (c # cs) s = run cs s'"
  by simp

lemma setup_okD:
  assumes "setup_ok w"
  obtains b r a where "w_sagemaker_Session w = None" "w_default_bucket w = Inr b"
    "w_get_execution_role w = Inr r" "w_boto3_client w ''sts'' = None"
    "w_get_caller_identity w = Inr a" "w_boto3_Session w = None"
proof -
  from assms have quiet: "w_sagemaker_Session w = None" "w_boto3_client w ''sts'' = None"
      "w_boto3_Session w = None"
    and right: "\<not> isl (w_default_bucket w)" "\<not> isl (w_get_execution_role w)"
      "\<not> isl (w_get_caller_identity w)"
    by (simp_all add: setup_ok_def)
  from right obtain b r a where "w_default_bucket w = Inr b" "w_get_execution_role w = Inr r"
    "w_get_caller_identity w = Inr a"
    by (metis sum.collapse(2))
  with quiet that show thesis by blast
qed

lemma setup_ok_answers:
  assumes "setup_ok w"
  shows "answer w Call_sagemaker_Session = None" "answer w Call_default_bucket = None"
    "answer w Call_get_execution_role = None" "answer w (Call_boto3_client ''sts'') = None"
    "answer w Call_get_caller_identity = None" "answer w Call_boto3_Session = None"
  using assms by (auto simp add: setup_ok_def split: sum.splits)

subsection \<open>The runs of the MaskRCNN notebook\<close>

text \<open>When no call of the first cell raises, the cells up to the hyperparameters complete
  and leave these bindings and calls.\<close>

lemma maskrcnn_pre:
  assumes [simp]: "w_sagemaker_Session w = None" "w_default_bucket w = Inr b"
    "w_get_execution_role w = Inr r" "w_boto3_client w ''sts'' = None"
    "w_get_caller_identity w = Inr a" "w_boto3_Session w = None"
  shows "\<exists>S. run [maskrcnn_cell_setup w, cell_image_tag p, cell_pygmentize, cell_build_and_push,
      maskrcnn_cell_config p, maskrcnn_cell_hyperparameters] fresh = Completed S
    \<and> (role S = Some r)
    \<and> (docker_image S = Some (a @ ''.dkr.ecr.'' @ py_str (w_region_name w) @ ''.amazonaws.com/''
             @ op_image p @ '':'' @ op_tag p))
    \<and> (instance_count S = Some (op_instance_count p))
    \<and> (instance_type S = Some (op_instance_type p))
    \<and> (sagemaker_session S = Some SagemakerSession)
    \<and> (hyperparameters S = Some [(''config-file'', PStr (op_config_file p)), (''skip-test'', PStr []),
             (''seed'', PInt 987), (''dtype'', PStr ''float16'')])
    \<and> (subnets S = Some (op_subnets p))
    \<and> (security_group_ids S = Some (op_security_group_ids p))
    \<and> (file_system_id S = Some (op_file_system_id p))
    \<and> (job_name S = Some (op_job_name p))
    \<and> (region S = Some (Some (op_region p)))
    \<and> (data_channels S = None)
    \<and> (shown S = [])
    \<and> (trace S = [Shell '' python3 -m pip install --upgrade sagemaker'',
          Call_sagemaker_Session, Call_default_bucket, Call_get_execution_role,
          Call_boto3_client ''sts'', Call_get_caller_identity, Call_boto3_Session,
          Shell ''pygmentize ./Dockerfile'',
          Shell ''pygmentize ./build_and_push.sh'',
          Shell ('' chmod +x build_and_push.sh; bash build_and_push.sh ''
                   @ py_str (w_region_name w) @ '' '' @ op_image p @ '' '' @ op_tag p)])"
  by (simp add: setup_defs mid_defs stmt_defs)

text \<open>The last three cells, from any namespace that binds what they read.\<close>

lemma maskrcnn_tail:
  assumes [simp]: "role S = Some r" "docker_image S = Some d" "instance_count S = Some n"
    "instance_type S = Some ty" "sagemaker_session S = Some ss" "hyperparameters S = Some hp"
    "subnets S = Some sn" "security_group_ids S = Some sg" "file_system_id S = Some fid"
    "job_name S = Some jn"
    and kw: "kw = \<lparr> kw_entry_point = ''train_pytorch_smdataparallel_maskrcnn.py'', kw_role = r,
          kw_image_uri = d,
          kw_source_dir = ''.'', kw_instance_count = n,
          kw_instance_type = ty, kw_framework_version = ''1.8.1'',
          kw_py_version = ''py36'', kw_sagemaker_session = ss,
          kw_hyperparameters = hp,
          kw_subnets = sn, kw_security_group_ids = sg,
          kw_debugger_hook_config = False, kw_distribution = distribution \<rparr>"
    and fkw: "fkw = \<lparr> kw_file_system_id = fid, kw_file_system_type = op_file_system_type p,
          kw_directory_path = op_file_system_directory_path p,
          kw_file_system_access_mode = op_file_system_access_mode p \<rparr>"
    and out: "out = run [maskrcnn_cell_estimator w, cell_fs_input w p, cell_fit w] S"
  shows "raised out =
         (case w_estimator w (PyTorch kw) of Some x \<Rightarrow> Some (External x) | None \<Rightarrow>
          (case w_FileSystemInput w fkw of Some x \<Rightarrow> Some (External x) | None \<Rightarrow>
           (case w_fit w (PyTorch kw) [(''train'', FileSystemInput fkw)] jn of
              Some x \<Rightarrow> Some (External x)
            | None \<Rightarrow>
               (case w_job_terminal w (PyTorch kw) [(''train'', FileSystemInput fkw)] jn of
                  Some x \<Rightarrow> Some (External x) | None \<Rightarrow> None))))"
      "calls out =
         trace S
         @ Call_estimator (PyTorch kw) #
           (if w_estimator w (PyTorch kw) = None
            then Call_FileSystemInput fkw #
              (if w_FileSystemInput w fkw = None
               then Call_fit (PyTorch kw) [(''train'', FileSystemInput fkw)] jn #
                 (if w_fit w (PyTorch kw) [(''train'', FileSystemInput fkw)] jn = None
                  then [Job_terminal (PyTorch kw) [(''train'', FileSystemInput fkw)] jn] else [])
               else [])
            else [])"
      "data_channels (final out) =
         (if w_estimator w (PyTorch kw) = None \<and> w_FileSystemInput w fkw = None
          then Some [(''train'', FileSystemInput fkw)] else data_channels S)"
      "region (final out) = region S"
      "shown (final out) = shown S"
  unfolding kw fkw out
  by (simp_all add: late_defs stmt_defs calls_def split: option.splits)

text \<open>When a call of the first cell raises, \<open>%%time\<close> prints the exception and the run goes
  on without \<open>region\<close>: the build line goes to the shell as written, and the configuration
  cell raises \<open>NameError\<close> at the image reference.\<close>

lemma maskrcnn_setup_raises:
  assumes "\<not> setup_ok w"
  shows "\<exists>x s. maskrcnn_cell_setup w fresh = Completed s
     \<and> region s = None \<and> shown s = [External x] \<and> data_channels s = None
     \<and> answer w (last (trace s)) = Some x
     \<and> (\<forall>c\<in>set (butlast (trace s)). answer w c = None)
     \<and> trace s \<in>
        {[Shell '' python3 -m pip install --upgrade sagemaker'', Call_sagemaker_Session],
         [Shell '' python3 -m pip install --upgrade sagemaker'', Call_sagemaker_Session,
          Call_default_bucket],
         [Shell '' python3 -m pip install --upgrade sagemaker'', Call_sagemaker_Session,
          Call_default_bucket, Call_get_execution_role],
         [Shell '' python3 -m pip install --upgrade sagemaker'', Call_sagemaker_Session,
          Call_default_bucket, Call_get_execution_role, Call_boto3_client ''sts''],
         [Shell '' python3 -m pip install --upgrade sagemaker'', Call_sagemaker_Session,
          Call_default_bucket, Call_get_execution_role, Call_boto3_client ''sts'',
          Call_get_caller_identity],
         [Shell '' python3 -m pip install --upgrade sagemaker'', Call_sagemaker_Session,
          Call_default_bucket, Call_get_execution_role, Call_boto3_client ''sts'',
          Call_get_caller_identity, Call_boto3_Session]}"
  using assms
  by (auto simp add: setup_ok_def setup_defs stmt_defs split: option.splits sum.splits)

lemma maskrcnn_rest_without_region:
  assumes "region s = None"
  shows "\<exists>nm s'. run [cell_image_tag p, cell_pygmentize, cell_build_and_push,
      maskrcnn_cell_config p, maskrcnn_cell_hyperparameters,
      maskrcnn_cell_estimator w, cell_fs_input w p, cell_fit w] s = Raised (NameError nm) s'
     \<and> (nm = ''account'' \<or> nm = ''region'')
     \<and> trace s' = trace s @
         [Shell ''pygmentize ./Dockerfile'', Shell ''pygmentize ./build_and_push.sh'',
          Shell '' chmod +x build_and_push.sh; bash build_and_push.sh {region} {image} {tag}'']
     \<and> shown s' = shown s \<and> data_channels s' = data_channels s"
  using assms by (cases "account s") (simp_all add: mid_defs stmt_defs)

lemma maskrcnn_fail:
  assumes "\<not> setup_ok w"
  shows "\<exists>x pre nm. (pre \<in>
        {[Shell '' python3 -m pip install --upgrade sagemaker'', Call_sagemaker_Session],
         [Shell '' python3 -m pip install --upgrade sagemaker'', Call_sagemaker_Session,
          Call_default_bucket],
         [Shell '' python3 -m pip install --upgrade sagemaker'', Call_sagemaker_Session,
          Call_default_bucket, Call_get_execution_role],
         [Shell '' python3 -m pip install --upgrade sagemaker'', Call_sagemaker_Session,
          Call_default_bucket, Call_get_execution_role, Call_boto3_client ''sts''],
         [Shell '' python3 -m pip install --upgrade sagemaker'', Call_sagemaker_Session,
          Call_default_bucket, Call_get_execution_role, Call_boto3_client ''sts'',
          Call_get_caller_identity],
         [Shell '' python3 -m pip install --upgrade sagemaker'', Call_sagemaker_Session,
          Call_default_bucket, Call_get_execution_role, Call_boto3_client ''sts'',
          Call_get_caller_identity, Call_boto3_Session]})
    \<and> (answer w (last pre) = Some x)
    \<and> (\<forall>c\<in>set (butlast pre). answer w c = None)
    \<and> (calls (maskrcnn_notebook w p) = pre @
         [Shell ''pygmentize ./Dockerfile'', Shell ''pygmentize ./build_and_push.sh'',
          Shell '' chmod +x build_and_push.sh; bash build_and_push.sh {region} {image} {tag}''])
    \<and> (raised (maskrcnn_notebook w p) = Some (NameError nm))
    \<and> (nm = ''account'' \<or> nm = ''region'')
    \<and> (shown (final (maskrcnn_notebook w p)) = [External x])
    \<and> (data_channels (final (maskrcnn_notebook w p)) = None)"
proof -
  from maskrcnn_setup_raises [OF assms] obtain x s where
    first_cell: "maskrcnn_cell_setup w fresh = Completed s"
    and s: "region s = None" "shown s = [External x]" "data_channels s = None"
      "answer w (last (trace s)) = Some x"
      "\<forall>c\<in>set (butlast (trace s)). answer w c = None"
      "trace s \<in>
        {[Shell '' python3 -m pip install --upgrade sagemaker'', Call_sagemaker_Session],
         [Shell '' python3 -m pip install --upgrade sagemaker'', Call_sagemaker_Session,
          Call_default_bucket],
         [Shell '' python3 -m pip install --upgrade sagemaker'', Call_sagemaker_Session,
          Call_default_bucket, Call_get_execution_role],
         [Shell '' python3 -m pip install --upgrade sagemaker'', Call_sagemaker_Session,
          Call_default_bucket, Call_get_execution_role, Call_boto3_client ''sts''],
         [Shell '' python3 -m pip install --upgrade sagemaker'', Call_sagemaker_Session,
          Call_default_bucket, Call_get_execution_role, Call_boto3_client ''sts'',
          Call_get_caller_identity],
         [Shell '' python3 -m pip install --upgrade sagemaker'', Call_sagemaker_Session,
          Call_default_bucket, Call_get_execution_role, Call_boto3_client ''sts'',
          Call_get_caller_identity, Call_boto3_Session]}"
    by blast
  from maskrcnn_rest_without_region [OF s(1), of p w] obtain nm s' where
    rest: "run [cell_image_tag p, cell_pygmentize, cell_build_and_push,
      maskrcnn_cell_config p, maskrcnn_cell_hyperparameters,
      maskrcnn_cell_estimator w, cell_fs_input w p, cell_fit w] s = Raised (NameError nm) s'"
    and s': "nm = ''account'' \<or> nm = ''region''"
      "trace s' = trace s @
         [Shell ''pygmentize ./Dockerfile'', Shell ''pygmentize ./build_and_push.sh'',
          Shell '' chmod +x build_and_push.sh; bash build_and_push.sh {region} {image} {tag}'']"
      "shown s' = shown s" "data_channels s' = data_channels s"
    by blast
  have "maskrcnn_notebook w p = Raised (NameError nm) s'"
    unfolding maskrcnn_notebook_def maskrcnn_cells_def
    by (simp only: run_after [of "maskrcnn_cell_setup w" fresh, OF first_cell] rest)
  with s s' show ?thesis
    by (intro exI [of _ x] exI [of _ "trace s"] exI [of _ nm]) (simp add: calls_def)
qed

lemma maskrcnn_nothing_constructed:
  assumes "\<not> setup_ok w"
  shows "Call_estimator e \<notin> set (calls (maskrcnn_notebook w p))"
    "Call_FileSystemInput f \<notin> set (calls (maskrcnn_notebook w p))"
    "Call_fit e chans jn \<notin> set (calls (maskrcnn_notebook w p))"
    "Job_terminal e chans jn \<notin> set (calls (maskrcnn_notebook w p))"
    "distinct (calls (maskrcnn_notebook w p))"
  using maskrcnn_fail [OF assms, of p] by auto

text \<open>Every run of the notebook is of one of two kinds.\<close>

lemma maskrcnn_cases:
  obtains (setup_raises) x pre nm where "\<not> setup_ok w"
      "pre \<in>
        {[Shell '' python3 -m pip install --upgrade sagemaker'', Call_sagemaker_Session],
         [Shell '' python3 -m pip install --upgrade sagemaker'', Call_sagemaker_Session,
          Call_default_bucket],
         [Shell '' python3 -m pip install --upgrade sagemaker'', Call_sagemaker_Session,
          Call_default_bucket, Call_get_execution_role],
         [Shell '' python3 -m pip install --upgrade sagemaker'', Call_sagemaker_Session,
          Call_default_bucket, Call_get_execution_role, Call_boto3_client ''sts''],
         [Shell '' python3 -m pip install --upgrade sagemaker'', Call_sagemaker_Session,
          Call_default_bucket, Call_get_execution_role, Call_boto3_client ''sts'',
          Call_get_caller_identity],
         [Shell '' python3 -m pip install --upgrade sagemaker'', Call_sagemaker_Session,
          Call_default_bucket, Call_get_execution_role, Call_boto3_client ''sts'',
          Call_get_caller_identity, Call_boto3_Session]}"
      "answer w (last pre) = Some x"
      "\<forall>c\<in>set (butlast pre). answer w c = None"
      "calls (maskrcnn_notebook w p) = pre @
         [Shell ''pygmentize ./Dockerfile'', Shell ''pygmentize ./build_and_push.sh'',
          Shell '' chmod +x build_and_push.sh; bash build_and_push.sh {region} {image} {tag}'']"
      "raised (maskrcnn_notebook w p) = Some (NameError nm)"
      "nm = ''account'' \<or> nm = ''region''"
      "shown (final (maskrcnn_notebook w p)) = [External x]"
      "data_channels (final (maskrcnn_notebook w p)) = None"
  | (setup_completes) r a kw fkw where "setup_ok w"
      "w_get_execution_role w = Inr r" "w_get_caller_identity w = Inr a"
      "kw = \<lparr> kw_entry_point = ''train_pytorch_smdataparallel_maskrcnn.py'', kw_role = r,
          kw_image_uri = a @ ''.dkr.ecr.'' @ py_str (w_region_name w) @ ''.amazonaws.com/''
             @ op_image p @ '':'' @ op_tag p,
          kw_source_dir = ''.'', kw_instance_count = op_instance_count p,
          kw_instance_type = op_instance_type p, kw_framework_version = ''1.8.1'',
          kw_py_version = ''py36'', kw_sagemaker_session = SagemakerSession,
          kw_hyperparameters = [(''config-file'', PStr (op_config_file p)), (''skip-test'', PStr []),
             (''seed'', PInt 987), (''dtype'', PStr ''float16'')],
          kw_subnets = op_subnets p, kw_security_group_ids = op_security_group_ids p,
          kw_debugger_hook_config = False, kw_distribution = distribution \<rparr>"
      "fkw = \<lparr> kw_file_system_id = op_file_system_id p, kw_file_system_type = op_file_system_type p,
          kw_directory_path = op_file_system_directory_path p,
          kw_file_system_access_mode = op_file_system_access_mode p \<rparr>"
      "raised (maskrcnn_notebook w p) =
         (case w_estimator w (PyTorch kw) of Some x \<Rightarrow> Some (External x) | None \<Rightarrow>
          (case w_FileSystemInput w fkw of Some x \<Rightarrow> Some (External x) | None \<Rightarrow>
           (case w_fit w (PyTorch kw) [(''train'', FileSystemInput fkw)] (op_job_name p) of
              Some x \<Rightarrow> Some (External x)
            | None \<Rightarrow>
               (case w_job_terminal w (PyTorch kw) [(''train'', FileSystemInput fkw)] (op_job_name p) of
                  Some x \<Rightarrow> Some (External x) | None \<Rightarrow> None))))"
      "calls (maskrcnn_notebook w p) =
         [Shell '' python3 -m pip install --upgrade sagemaker'',
          Call_sagemaker_Session, Call_default_bucket, Call_get_execution_role,
          Call_boto3_client ''sts'', Call_get_caller_identity, Call_boto3_Session,
          Shell ''pygmentize ./Dockerfile'',
          Shell ''pygmentize ./build_and_push.sh'',
          Shell ('' chmod +x build_and_push.sh; bash build_and_push.sh ''
                   @ py_str (w_region_name w) @ '' '' @ op_image p @ '' '' @ op_tag p)]
         @ Call_estimator (PyTorch kw) #
           (if w_estimator w (PyTorch kw) = None
            then Call_FileSystemInput fkw #
              (if w_FileSystemInput w fkw = None
               then Call_fit (PyTorch kw) [(''train'', FileSystemInput fkw)] (op_job_name p) #
                 (if w_fit w (PyTorch kw) [(''train'', FileSystemInput fkw)] (op_job_name p) = None
                  then [Job_terminal (PyTorch kw) [(''train'', FileSystemInput fkw)] (op_job_name p)] else [])
               else [])
            else [])"
      "data_channels (final (maskrcnn_notebook w p)) =
         (if w_estimator w (PyTorch kw) = None \<and> w_FileSystemInput w fkw = None
          then Some [(''train'', FileSystemInput fkw)] else None)"
      "region (final (maskrcnn_notebook w p)) = Some (Some (op_region p))"
      "shown (final (maskrcnn_notebook w p)) = []"
proof (cases "setup_ok w")
  case False
  from maskrcnn_fail [OF False, of p] show thesis
    by (elim exE conjE) (rule setup_raises [OF False])
next
  case True
  then obtain b r a where w: "w_sagemaker_Session w = None" "w_default_bucket w = Inr b"
    "w_get_execution_role w = Inr r" "w_boto3_client w ''sts'' = None"
    "w_get_caller_identity w = Inr a" "w_boto3_Session w = None"
    by (rule setup_okD)
  from maskrcnn_pre [OF w, of p] obtain S where
    pre: "run [maskrcnn_cell_setup w, cell_image_tag p, cell_pygmentize, cell_build_and_push,
      maskrcnn_cell_config p, maskrcnn_cell_hyperparameters] fresh = Completed S"
    and S: "role S = Some r"
      "docker_image S = Some (a @ ''.dkr.ecr.'' @ py_str (w_region_name w) @ ''.amazonaws.com/''
             @ op_image p @ '':'' @ op_tag p)"
      "instance_count S = Some (op_instance_count p)"
      "instance_type S = Some (op_instance_type p)"
      "sagemaker_session S = Some SagemakerSession"
      "hyperparameters S = Some [(''config-file'', PStr (op_config_file p)), (''skip-test'', PStr []),
             (''seed'', PInt 987), (''dtype'', PStr ''float16'')]"
      "subnets S = Some (op_subnets p)"
      "security_group_ids S = Some (op_security_group_ids p)"
      "file_system_id S = Some (op_file_system_id p)"
      "job_name S = Some (op_job_name p)"
    and S': "region S = Some (Some (op_region p))"
      "data_channels S = None"
      "shown S = []"
      "trace S = [Shell '' python3 -m pip install --upgrade sagemaker'',
          Call_sagemaker_Session, Call_default_bucket, Call_get_execution_role,
          Call_boto3_client ''sts'', Call_get_caller_identity, Call_boto3_Session,
          Shell ''pygmentize ./Dockerfile'',
          Shell ''pygmentize ./build_and_push.sh'',
          Shell ('' chmod +x build_and_push.sh; bash build_and_push.sh ''
                   @ py_str (w_region_name w) @ '' '' @ op_image p @ '' '' @ op_tag p)]"
    by blast
  have "maskrcnn_cells w p = [maskrcnn_cell_setup w, cell_image_tag p, cell_pygmentize, cell_build_and_push,
      maskrcnn_cell_config p, maskrcnn_cell_hyperparameters]
      @ [maskrcnn_cell_estimator w, cell_fs_input w p, cell_fit w]"
    by (simp add: maskrcnn_cells_def)
  then have nb: "maskrcnn_notebook w p = run [maskrcnn_cell_estimator w, cell_fs_input w p, cell_fit w] S"
    unfolding maskrcnn_notebook_def by (simp only: run_append pre outcome.case)
  show thesis
    by (rule setup_completes [OF True w(3) w(5) refl refl])
      (rule maskrcnn_tail [OF S refl refl nb, unfolded S'])+
qed

subsection \<open>The runs of the BERT notebook\<close>

text \<open>When no call of the first cell raises, the cells up to the hyperparameters complete
  and leave these bindings and calls.\<close>

lemma bert_pre:
  assumes [simp]: "w_sagemaker_Session w = None" "w_default_bucket w = Inr b"
    "w_get_execution_role w = Inr r" "w_boto3_client w ''sts'' = None"
    "w_get_caller_identity w = Inr a" "w_boto3_Session w = None"
  shows "\<exists>S. run [bert_cell_setup w, cell_image_tag p, cell_pygmentize, cell_build_and_push,
      bert_cell_clone, bert_cell_config p, bert_cell_hyperparameters] fresh = Completed S
    \<and> (role S = Some r)
    \<and> (docker_image S = Some (a @ ''.dkr.ecr.'' @ py_str (w_region_name w) @ ''.amazonaws.com/''
             @ op_image p @ '':'' @ op_tag p))
    \<and> (instance_count S = Some (op_instance_count p))
    \<and> (instance_type S = Some (op_instance_type p))
    \<and> (sagemaker_session S = Some SagemakerSession)
    \<and> (hyperparameters S = Some [(''train_dir'', PStr
               ''/opt/ml/input/data/train/tfrecords/train/max_seq_len_128_max_predictions_per_seq_20_masked_lm_prob_15''),
             (''val_dir'', PStr
               ''/opt/ml/input/data/train/tfrecords/validation/max_seq_len_128_max_predictions_per_seq_20_masked_lm_prob_15''),
             (''log_dir'', PStr ''/opt/ml/input/data/train/checkpoints/bert/logs''),
             (''checkpoint_dir'', PStr ''/opt/ml/input/data/train/checkpoints/bert''),
             (''load_from'', PStr ''scratch''),
             (''model_type'', PStr ''bert''),
             (''model_size'', PStr ''large''),
             (''per_gpu_batch_size'', PInt 64),
             (''max_seq_length'', PInt 128),
             (''max_predictions_per_seq'', PInt 20),
             (''optimizer'', PStr ''lamb''),
             (''learning_rate'', PFloat ''0.005''),
             (''end_learning_rate'', PFloat ''0.0003''),
             (''hidden_dropout_prob'', PFloat ''0.1''),
             (''attention_probs_dropout_prob'', PFloat ''0.1''),
             (''gradient_accumulation_steps'', PInt 1),
             (''learning_rate_decay_power'', PFloat ''0.5''),
             (''warmup_steps'', PInt 2812),
             (''total_steps'', PInt 2000),
             (''log_frequency'', PInt 10),
             (''run_name'', PStr (op_job_name p)),
             (''squad_frequency'', PInt 0)])
    \<and> (subnets S = Some (op_subnets p))
    \<and> (security_group_ids S = Some (op_security_group_ids p))
    \<and> (file_system_id S = Some (op_file_system_id p))
    \<and> (job_name S = Some (op_job_name p))
    \<and> (region S = Some (w_region_name w))
    \<and> (data_channels S = None)
    \<and> (shown S = [])
    \<and> (trace S = [Shell '' python3 -m pip install --upgrade sagemaker'',
          Call_sagemaker_Session, Call_default_bucket, Call_get_execution_role,
          Call_boto3_client ''sts'', Call_get_caller_identity, Call_boto3_Session,
          Shell ''pygmentize ./Dockerfile'',
          Shell ''pygmentize ./build_and_push.sh'',
          Shell ('' chmod +x build_and_push.sh; bash build_and_push.sh ''
                   @ py_str (w_region_name w) @ '' '' @ op_image p @ '' '' @ op_tag p),
          Shell ''rm -rf deep-learning-models'',
          Shell ''git clone --recursive https://github.com/HerringForks/deep-learning-models.git''])"
  by (simp add: setup_defs mid_defs stmt_defs)

text \<open>The last three cells, from any namespace that binds what they read.\<close>

lemma bert_tail:
  assumes [simp]: "role S = Some r" "docker_image S = Some d" "instance_count S = Some n"
    "instance_type S = Some ty" "sagemaker_session S = Some ss" "hyperparameters S = Some hp"
    "subnets S = Some sn" "security_group_ids S = Some sg" "file_system_id S = Some fid"
    "job_name S = Some jn"
    and kw: "kw = \<lparr> kw_entry_point = ''albert/run_pretraining.py'', kw_role = r,
          kw_image_uri = d,
          kw_source_dir = ''deep-learning-models/models/nlp'', kw_instance_count = n,
          kw_instance_type = ty, kw_framework_version = ''2.4.1'',
          kw_py_version = ''py37'', kw_sagemaker_session = ss,
          kw_hyperparameters = hp,
          kw_subnets = sn, kw_security_group_ids = sg,
          kw_debugger_hook_config = False, kw_distribution = distribution \<rparr>"
    and fkw: "fkw = \<lparr> kw_file_system_id = fid, kw_file_system_type = op_file_system_type p,
          kw_directory_path = op_file_system_directory_path p,
          kw_file_system_access_mode = op_file_system_access_mode p \<rparr>"
    and out: "out = run [bert_cell_estimator w, cell_fs_input w p, cell_fit w] S"
  shows "raised out =
         (case w_estimator w (TensorFlow kw) of Some x \<Rightarrow> Some (External x) | None \<Rightarrow>
          (case w_FileSystemInput w fkw of Some x \<Rightarrow> Some (External x) | None \<Rightarrow>
           (case w_fit w (TensorFlow kw) [(''train'', FileSystemInput fkw)] jn of
              Some x \<Rightarrow> Some (External x)
            | None \<Rightarrow>
               (case w_job_terminal w (TensorFlow kw) [(''train'', FileSystemInput fkw)] jn of
                  Some x \<Rightarrow> Some (External x) | None \<Rightarrow> None))))"
      "calls out =
         trace S
         @ Call_estimator (TensorFlow kw) #
           (if w_estimator w (TensorFlow kw) = None
            then Call_FileSystemInput fkw #
              (if w_FileSystemInput w fkw = None
               then Call_fit (TensorFlow kw) [(''train'', FileSystemInput fkw)] jn #
                 (if w_fit w (TensorFlow kw) [(''train'', FileSystemInput fkw)] jn = None
                  then [Job_terminal (TensorFlow kw) [(''train'', FileSystemInput fkw)] jn] else [])
               else [])
            else [])"
      "data_channels (final out) =
         (if w_estimator w (TensorFlow kw) = None \<and> w_FileSystemInput w fkw = None
          then Some [(''train'', FileSystemInput fkw)] else data_channels S)"
      "region (final out) = region S"
      "shown (final out) = shown S"
  unfolding kw fkw out
  by (simp_all add: late_defs stmt_defs calls_def split: option.splits)

text \<open>When a call of the first cell raises, \<open>%%time\<close> prints the exception and the run goes
  on without \<open>region\<close>: the build line goes to the shell as written, and the configuration
  cell raises \<open>NameError\<close> at the image reference.\<close>

lemma bert_setup_raises:
  assumes "\<not> setup_ok w"
  shows "\<exists>x s. bert_cell_setup w fresh = Completed s
     \<and> region s = None \<and> shown s = [External x] \<and> data_channels s = None
     \<and> answer w (last (trace s)) = Some x
     \<and> (\<forall>c\<in>set (butlast (trace s)). answer w c = None)
     \<and> trace s \<in>
        {[Shell '' python3 -m pip install --upgrade sagemaker'', Call_sagemaker_Session],
         [Shell '' python3 -m pip install --upgrade sagemaker'', Call_sagemaker_Session,
          Call_default_bucket],
         [Shell '' python3 -m pip install --upgrade sagemaker'', Call_sagemaker_Session,
          Call_default_bucket, Call_get_execution_role],
         [Shell '' python3 -m pip install --upgrade sagemaker'', Call_sagemaker_Session,
          Call_default_bucket, Call_get_execution_role, Call_boto3_client ''sts''],
         [Shell '' python3 -m pip install --upgrade sagemaker'', Call_sagemaker_Session,
          Call_default_bucket, Call_get_execution_role, Call_boto3_client ''sts'',
          Call_get_caller_identity],
         [Shell '' python3 -m pip install --upgrade sagemaker'', Call_sagemaker_Session,
          Call_default_bucket, Call_get_execution_role, Call_boto3_client ''sts'',
          Call_get_caller_identity, Call_boto3_Session]}"
  using assms
  by (auto simp add: setup_ok_def setup_defs stmt_defs split: option.splits sum.splits)

lemma bert_rest_without_region:
  assumes "region s = None"
  shows "\<exists>nm s'. run [cell_image_tag p, cell_pygmentize, cell_build_and_push,
      bert_cell_clone, bert_cell_config p, bert_cell_hyperparameters,
      bert_cell_estimator w, cell_fs_input w p, cell_fit w] s = Raised (NameError nm) s'
     \<and> (nm = ''account'' \<or> nm = ''region'')
     \<and> trace s' = trace s @
         [Shell ''pygmentize ./Dockerfile'', Shell ''pygmentize ./build_and_push.sh'',
          Shell '' chmod +x build_and_push.sh; bash build_and_push.sh {region} {image} {tag}'',
          Shell ''rm -rf deep-learning-models'',
          Shell ''git clone --recursive https://github.com/HerringForks/deep-learning-models.git'']
     \<and> shown s' = shown s \<and> data_channels s' = data_channels s"
  using assms by (cases "account s") (simp_all add: mid_defs stmt_defs)

lemma bert_fail:
  assumes "\<not> setup_ok w"
  shows "\<exists>x pre nm. (pre \<in>
        {[Shell '' python3 -m pip install --upgrade sagemaker'', Call_sagemaker_Session],
         [Shell '' python3 -m pip install --upgrade sagemaker'', Call_sagemaker_Session,
          Call_default_bucket],
         [Shell '' python3 -m pip install --upgrade sagemaker'', Call_sagemaker_Session,
          Call_default_bucket, Call_get_execution_role],
         [Shell '' python3 -m pip install --upgrade sagemaker'', Call_sagemaker_Session,
          Call_default_bucket, Call_get_execution_role, Call_boto3_client ''sts''],
         [Shell '' python3 -m pip install --upgrade sagemaker'', Call_sagemaker_Session,
          Call_default_bucket, Call_get_execution_role, Call_boto3_client ''sts'',
          Call_get_caller_identity],
         [Shell '' python3 -m pip install --upgrade sagemaker'', Call_sagemaker_Session,
          Call_default_bucket, Call_get_execution_role, Call_boto3_client ''sts'',
          Call_get_caller_identity, Call_boto3_Session]})
    \<and> (answer w (last pre) = Some x)
    \<and> (\<forall>c\<in>set (butlast pre). answer w c = None)
    \<and> (calls (bert_notebook w p) = pre @
         [Shell ''pygmentize ./Dockerfile'', Shell ''pygmentize ./build_and_push.sh'',
          Shell '' chmod +x build_and_push.sh; bash build_and_push.sh {region} {image} {tag}'',
          Shell ''rm -rf deep-learning-models'',
          Shell ''git clone --recursive https://github.com/HerringForks/deep-learning-models.git''])
    \<and> (raised (bert_notebook w p) = Some (NameError nm))
    \<and> (nm = ''account'' \<or> nm = ''region'')
    \<and> (shown (final (bert_notebook w p)) = [External x])
    \<and> (data_channels (final (bert_notebook w p)) = None)"
proof -
  from bert_setup_raises [OF assms] obtain x s where
    first_cell: "bert_cell_setup w fresh = Completed s"
    and s: "region s = None" "shown s = [External x]" "data_channels s = None"
      "answer w (last (trace s)) = Some x"
      "\<forall>c\<in>set (butlast (trace s)). answer w c = None"
      "trace s \<in>
        {[Shell '' python3 -m pip install --upgrade sagemaker'', Call_sagemaker_Session],
         [Shell '' python3 -m pip install --upgrade sagemaker'', Call_sagemaker_Session,
          Call_default_bucket],
         [Shell '' python3 -m pip install --upgrade sagemaker'', Call_sagemaker_Session,
          Call_default_bucket, Call_get_execution_role],
         [Shell '' python3 -m pip install --upgrade sagemaker'', Call_sagemaker_Session,
          Call_default_bucket, Call_get_execution_role, Call_boto3_client ''sts''],
         [Shell '' python3 -m pip install --upgrade sagemaker'', Call_sagemaker_Session,
          Call_default_bucket, Call_get_execution_role, Call_boto3_client ''sts'',
          Call_get_caller_identity],
         [Shell '' python3 -m pip install --upgrade sagemaker'', Call_sagemaker_Session,
          Call_default_bucket, Call_get_execution_role, Call_boto3_client ''sts'',
          Call_get_caller_identity, Call_boto3_Session]}"
    by blast
  from bert_rest_without_region [OF s(1), of p w] obtain nm s' where
    rest: "run [cell_image_tag p, cell_pygmentize, cell_build_and_push,
      bert_cell_clone, bert_cell_config p, bert_cell_hyperparameters,
      bert_cell_estimator w, cell_fs_input w p, cell_fit w] s = Raised (NameError nm) s'"
    and s': "nm = ''account'' \<or> nm = ''region''"
      "trace s' = trace s @
         [Shell ''pygmentize ./Dockerfile'', Shell ''pygmentize ./build_and_push.sh'',
          Shell '' chmod +x build_and_push.sh; bash build_and_push.sh {region} {image} {tag}'',
          Shell ''rm -rf deep-learning-models'',
          Shell ''git clone --recursive https://github.com/HerringForks/deep-learning-models.git'']"
      "shown s' = shown s" "data_channels s' = data_channels s"
    by blast
  have "bert_notebook w p = Raised (NameError nm) s'"
    unfolding bert_notebook_def bert_cells_def
    by (simp only: run_after [of "bert_cell_setup w" fresh, OF first_cell] rest)
  with s s' show ?thesis
    by (intro exI [of _ x] exI [of _ "trace s"] exI [of _ nm]) (simp add: calls_def)
qed

lemma bert_nothing_constructed:
  assumes "\<not> setup_ok w"
  shows "Call_estimator e \<notin> set (calls (bert_notebook w p))"
    "Call_FileSystemInput f \<notin> set (calls (bert_notebook w p))"
    "Call_fit e chans jn \<notin> set (calls (bert_notebook w p))"
    "Job_terminal e chans jn \<notin> set (calls (bert_notebook w p))"
    "distinct (calls (bert_notebook w p))"
  using bert_fail [OF assms, of p] by auto

text \<open>Every run of the notebook is of one of two kinds.\<close>

lemma bert_cases:
  obtains (setup_raises) x pre nm where "\<not> setup_ok w"
      "pre \<in>
        {[Shell '' python3 -m pip install --upgrade sagemaker'', Call_sagemaker_Session],
         [Shell '' python3 -m pip install --upgrade sagemaker'', Call_sagemaker_Session,
          Call_default_bucket],
         [Shell '' python3 -m pip install --upgrade sagemaker'', Call_sagemaker_Session,
          Call_default_bucket, Call_get_execution_role],
         [Shell '' python3 -m pip install --upgrade sagemaker'', Call_sagemaker_Session,
          Call_default_bucket, Call_get_execution_role, Call_boto3_client ''sts''],
         [Shell '' python3 -m pip install --upgrade sagemaker'', Call_sagemaker_Session,
          Call_default_bucket, Call_get_execution_role, Call_boto3_client ''sts'',
          Call_get_caller_identity],
         [Shell '' python3 -m pip install --upgrade sagemaker'', Call_sagemaker_Session,
          Call_default_bucket, Call_get_execution_role, Call_boto3_client ''sts'',
          Call_get_caller_identity, Call_boto3_Session]}"
      "answer w (last pre) = Some x"
      "\<forall>c\<in>set (butlast pre). answer w c = None"
      "calls (bert_notebook w p) = pre @
         [Shell ''pygmentize ./Dockerfile'', Shell ''pygmentize ./build_and_push.sh'',
          Shell '' chmod +x build_and_push.sh; bash build_and_push.sh {region} {image} {tag}'',
          Shell ''rm -rf deep-learning-models'',
          Shell ''git clone --recursive https://github.com/HerringForks/deep-learning-models.git'']"
      "raised (bert_notebook w p) = Some (NameError nm)"
      "nm = ''account'' \<or> nm = ''region''"
      "shown (final (bert_notebook w p)) = [External x]"
      "data_channels (final (bert_notebook w p)) = None"
  | (setup_completes) r a kw fkw where "setup_ok w"
      "w_get_execution_role w = Inr r" "w_get_caller_identity w = Inr a"
      "kw = \<lparr> kw_entry_point = ''albert/run_pretraining.py'', kw_role = r,
          kw_image_uri = a @ ''.dkr.ecr.'' @ py_str (w_region_name w) @ ''.amazonaws.com/''
             @ op_image p @ '':'' @ op_tag p,
          kw_source_dir = ''deep-learning-models/models/nlp'', kw_instance_count = op_instance_count p,
          kw_instance_type = op_instance_type p, kw_framework_version = ''2.4.1'',
          kw_py_version = ''py37'', kw_sagemaker_session = SagemakerSession,
          kw_hyperparameters = [(''train_dir'', PStr
               ''/opt/ml/input/data/train/tfrecords/train/max_seq_len_128_max_predictions_per_seq_20_masked_lm_prob_15''),
             (''val_dir'', PStr
               ''/opt/ml/input/data/train/tfrecords/validation/max_seq_len_128_max_predictions_per_seq_20_masked_lm_prob_15''),
             (''log_dir'', PStr ''/opt/ml/input/data/train/checkpoints/bert/logs''),
             (''checkpoint_dir'', PStr ''/opt/ml/input/data/train/checkpoints/bert''),
             (''load_from'', PStr ''scratch''),
             (''model_type'', PStr ''bert''),
             (''model_size'', PStr ''large''),
             (''per_gpu_batch_size'', PInt 64),
             (''max_seq_length'', PInt 128),
             (''max_predictions_per_seq'', PInt 20),
             (''optimizer'', PStr ''lamb''),
             (''learning_rate'', PFloat ''0.005''),
             (''end_learning_rate'', PFloat ''0.0003''),
             (''hidden_dropout_prob'', PFloat ''0.1''),
             (''attention_probs_dropout_prob'', PFloat ''0.1''),
             (''gradient_accumulation_steps'', PInt 1),
             (''learning_rate_decay_power'', PFloat ''0.5''),
             (''warmup_steps'', PInt 2812),
             (''total_steps'', PInt 2000),
             (''log_frequency'', PInt 10),
             (''run_name'', PStr (op_job_name p)),
             (''squad_frequency'', PInt 0)],
          kw_subnets = op_subnets p, kw_security_group_ids = op_security_group_ids p,
          kw_debugger_hook_config = False, kw_distribution = distribution \<rparr>"
      "fkw = \<lparr> kw_file_system_id = op_file_system_id p, kw_file_system_type = op_file_system_type p,
          kw_directory_path = op_file_system_directory_path p,
          kw_file_system_access_mode = op_file_system_access_mode p \<rparr>"
      "raised (bert_notebook w p) =
         (case w_estimator w (TensorFlow kw) of Some x \<Rightarrow> Some (External x) | None \<Rightarrow>
          (case w_FileSystemInput w fkw of Some x \<Rightarrow> Some (External x) | None \<Rightarrow>
           (case w_fit w (TensorFlow kw) [(''train'', FileSystemInput fkw)] (op_job_name p) of
              Some x \<Rightarrow> Some (External x)
            | None \<Rightarrow>
               (case w_job_terminal w (TensorFlow kw) [(''train'', FileSystemInput fkw)] (op_job_name p) of
                  Some x \<Rightarrow> Some (External x) | None \<Rightarrow> None))))"
      "calls (bert_notebook w p) =
         [Shell '' python3 -m pip install --upgrade sagemaker'',
          Call_sagemaker_Session, Call_default_bucket, Call_get_execution_role,
          Call_boto3_client ''sts'', Call_get_caller_identity, Call_boto3_Session,
          Shell ''pygmentize ./Dockerfile'',
          Shell ''pygmentize ./build_and_push.sh'',
          Shell ('' chmod +x build_and_push.sh; bash build_and_push.sh ''
                   @ py_str (w_region_name w) @ '' '' @ op_image p @ '' '' @ op_tag p),
          Shell ''rm -rf deep-learning-models'',
          Shell ''git clone --recursive https://github.com/HerringForks/deep-learning-models.git'']
         @ Call_estimator (TensorFlow kw) #
           (if w_estimator w (TensorFlow kw) = None
            then Call_FileSystemInput fkw #
              (if w_FileSystemInput w fkw = None
               then Call_fit (TensorFlow kw) [(''train'', FileSystemInput fkw)] (op_job_name p) #
                 (if w_fit w (TensorFlow kw) [(''train'', FileSystemInput fkw)] (op_job_name p) = None
                  then [Job_terminal (TensorFlow kw) [(''train'', FileSystemInput fkw)] (op_job_name p)] else [])
               else [])
            else [])"
      "data_channels (final (bert_notebook w p)) =
         (if w_estimator w (TensorFlow kw) = None \<and> w_FileSystemInput w fkw = None
          then Some [(''train'', FileSystemInput fkw)] else None)"
      "region (final (bert_notebook w p)) = Some (w_region_name w)"
      "shown (final (bert_notebook w p)) = []"
proof (cases "setup_ok w")
  case False
  from bert_fail [OF False, of p] show thesis
    by (elim exE conjE) (rule setup_raises [OF False])
next
  case True
  then obtain b r a where w: "w_sagemaker_Session w = None" "w_default_bucket w = Inr b"
    "w_get_execution_role w = Inr r" "w_boto3_client w ''sts'' = None"
    "w_get_caller_identity w = Inr a" "w_boto3_Session w = None"
    by (rule setup_okD)
  from bert_pre [OF w, of p] obtain S where
    pre: "run [bert_cell_setup w, cell_image_tag p, cell_pygmentize, cell_build_and_push,
      bert_cell_clone, bert_cell_config p, bert_cell_hyperparameters] fresh = Completed S"
    and S: "role S = Some r"
      "docker_image S = Some (a @ ''.dkr.ecr.'' @ py_str (w_region_name w) @ ''.amazonaws.com/''
             @ op_image p @ '':'' @ op_tag p)"
      "instance_count S = Some (op_instance_count p)"
      "instance_type S = Some (op_instance_type p)"
      "sagemaker_session S = Some SagemakerSession"
      "hyperparameters S = Some [(''train_dir'', PStr
               ''/opt/ml/input/data/train/tfrecords/train/max_seq_len_128_max_predictions_per_seq_20_masked_lm_prob_15''),
             (''val_dir'', PStr
               ''/opt/ml/input/data/train/tfrecords/validation/max_seq_len_128_max_predictions_per_seq_20_masked_lm_prob_15''),
             (''log_dir'', PStr ''/opt/ml/input/data/train/checkpoints/bert/logs''),
             (''checkpoint_dir'', PStr ''/opt/ml/input/data/train/checkpoints/bert''),
             (''load_from'', PStr ''scratch''),
             (''model_type'', PStr ''bert''),
             (''model_size'', PStr ''large''),
             (''per_gpu_batch_size'', PInt 64),
             (''max_seq_length'', PInt 128),
             (''max_predictions_per_seq'', PInt 20),
             (''optimizer'', PStr ''lamb''),
             (''learning_rate'', PFloat ''0.005''),
             (''end_learning_rate'', PFloat ''0.0003''),
             (''hidden_dropout_prob'', PFloat ''0.1''),
             (''attention_probs_dropout_prob'', PFloat ''0.1''),
             (''gradient_accumulation_steps'', PInt 1),
             (''learning_rate_decay_power'', PFloat ''0.5''),
             (''warmup_steps'', PInt 2812),
             (''total_steps'', PInt 2000),
             (''log_frequency'', PInt 10),
             (''run_name'', PStr (op_job_name p)),
             (''squad_frequency'', PInt 0)]"
      "subnets S = Some (op_subnets p)"
      "security_group_ids S = Some (op_security_group_ids p)"
      "file_system_id S = Some (op_file_system_id p)"
      "job_name S = Some (op_job_name p)"
    and S': "region S = Some (w_region_name w)"
      "data_channels S = None"
      "shown S = []"
      "trace S = [Shell '' python3 -m pip install --upgrade sagemaker'',
          Call_sagemaker_Session, Call_default_bucket, Call_get_execution_role,
          Call_boto3_client ''sts'', Call_get_caller_identity, Call_boto3_Session,
          Shell ''pygmentize ./Dockerfile'',
          Shell ''pygmentize ./build_and_push.sh'',
          Shell ('' chmod +x build_and_push.sh; bash build_and_push.sh ''
                   @ py_str (w_region_name w) @ '' '' @ op_image p @ '' '' @ op_tag p),
          Shell ''rm -rf deep-learning-models'',
          Shell ''git clone --recursive https://github.com/HerringForks/deep-learning-models.git'']"
    by blast
  have "bert_cells w p = [bert_cell_setup w, cell_image_tag p, cell_pygmentize, cell_build_and_push,
      bert_cell_clone, bert_cell_config p, bert_cell_hyperparameters]
      @ [bert_cell_estimator w, cell_fs_input w p, cell_fit w]"
    by (simp add: bert_cells_def)
  then have nb: "bert_notebook w p = run [bert_cell_estimator w, cell_fs_input w p, cell_fit w] S"
    unfolding bert_notebook_def by (simp only: run_append pre outcome.case)
  show thesis
    by (rule setup_completes [OF True w(3) w(5) refl refl])
      (rule bert_tail [OF S refl refl nb, unfolded S'])+
qed

subsection \<open>Words and commands of a shell line\<close>

lemma fields_none: "list_all (\<lambda>c. \<not> P c) xs \<Longrightarrow> fields P xs = [xs]"
  by (induction xs) auto

lemma fields_at: "list_all (\<lambda>c. \<not> P c) xs \<Longrightarrow> P c \<Longrightarrow> fields P (xs @ c # ys) = xs # fields P ys"
  by (induction xs) auto

lemma word_char_plain: "word_char c \<Longrightarrow> \<not> is_blank c \<and> c \<noteq> CHR '';''"
  by (auto simp add: word_char_def is_blank_def)

lemma inert_plain:
  assumes "inert x"
  shows "x \<noteq> []" "list_all (\<lambda>c. \<not> is_blank c) x" "list_all (\<lambda>c. c \<noteq> CHR '';'') x"
    "list_all (\<lambda>c. word_char c \<or> is_blank c \<or> c = CHR '';'') x"
  using assms by (auto simp add: inert_def list_all_iff dest: word_char_plain)

lemma script_args_fixed:
  "script_args '' python3 -m pip install --upgrade sagemaker'' = Some []"
  "script_args ''pygmentize ./Dockerfile'' = Some []"
  "script_args ''pygmentize ./build_and_push.sh'' = Some []"
  "script_args ''rm -rf deep-learning-models'' = Some []"
  "script_args ''git clone --recursive https://github.com/HerringForks/deep-learning-models.git''
     = Some []"
  by (simp_all add: script_args_def shell_commands_def shell_words_def word_char_def is_blank_def)

lemma script_args_build:
  assumes r: "inert r" and i: "inert i" and t: "inert t"
  shows "script_args ('' chmod +x build_and_push.sh; bash build_and_push.sh ''
           @ r @ '' '' @ i @ '' '' @ t) = Some [[r, i, t]]"
proof -
  let ?rest = "'' bash build_and_push.sh '' @ r @ '' '' @ i @ '' '' @ t"
  let ?line = "'' chmod +x build_and_push.sh; bash build_and_push.sh '' @ r @ '' '' @ i @ '' '' @ t"
  have split_line: "?line = '' chmod +x build_and_push.sh'' @ CHR '';'' # ?rest"
    by simp
  have covered: "list_all (\<lambda>c. word_char c \<or> is_blank c \<or> c = CHR '';'') ?line"
    using inert_plain(4) [OF r] inert_plain(4) [OF i] inert_plain(4) [OF t]
    by (simp add: word_char_def is_blank_def)
  have "list_all (\<lambda>c. \<not> c = CHR '';'') ?rest"
    using inert_plain(3) [OF r] inert_plain(3) [OF i] inert_plain(3) [OF t] by simp
  then have "fields (\<lambda>c. c = CHR '';'') ?rest = [?rest]"
    by (rule fields_none)
  moreover have "list_all (\<lambda>c. \<not> c = CHR '';'') '' chmod +x build_and_push.sh''"
    by simp
  ultimately have commands:
    "fields (\<lambda>c. c = CHR '';'') ?line = ['' chmod +x build_and_push.sh'', ?rest]"
    unfolding split_line by (simp only: fields_at)
  have first: "shell_words '' chmod +x build_and_push.sh'' = [''chmod'', ''+x'', ''build_and_push.sh'']"
    by (simp add: shell_words_def is_blank_def)
  have blank: "is_blank CHR '' ''"
    by (simp add: is_blank_def)
  have "fields is_blank (t) = [t]"
    using inert_plain(2) [OF t] by (rule fields_none)
  then have "fields is_blank (i @ CHR '' '' # t) = [i, t]"
    using inert_plain(2) [OF i] blank by (simp add: fields_at)
  then have "fields is_blank (r @ CHR '' '' # i @ CHR '' '' # t) = [r, i, t]"
    using inert_plain(2) [OF r] blank by (simp add: fields_at)
  then have "fields is_blank ?rest = [[], ''bash'', ''build_and_push.sh'', r, i, t]"
    by (simp add: is_blank_def)
  then have second: "shell_words ?rest = [''bash'', ''build_and_push.sh'', r, i, t]"
    using inert_plain(1) [OF r] inert_plain(1) [OF i] inert_plain(1) [OF t]
    by (simp add: shell_words_def)
  have words: "shell_commands ?line =
      [[''chmod'', ''+x'', ''build_and_push.sh''], [''bash'', ''build_and_push.sh'', r, i, t]]"
    by (simp only: shell_commands_def commands list.map first second)
  have accepted: "list_all (\<lambda>ws. ws \<noteq> []) (butlast (shell_commands ?line))"
    unfolding words by simp
  have "script_args ?line = Some (map (drop 2)
      (filter (\<lambda>ws. take 2 ws = [''bash'', ''build_and_push.sh''])
         [[''chmod'', ''+x'', ''build_and_push.sh''], [''bash'', ''build_and_push.sh'', r, i, t]]))"
    unfolding script_args_def using covered accepted
    by (simp only: simp_thms if_True words)
  then show ?thesis by simp
qed

lemma script_invocations_append:
  "script_invocations (cs @ ds) =
     (case script_invocations cs of
        None \<Rightarrow> None
      | Some a \<Rightarrow> (case script_invocations ds of None \<Rightarrow> None | Some b \<Rightarrow> Some (a @ b)))"
  by (induction cs rule: script_invocations.induct) (auto split: option.splits)

subsection \<open>The run in which nothing raises\<close>

lemma quiet_setup_ok: "setup_ok quiet_world"
  by (simp add: setup_ok_def quiet_world_def)

lemma quiet_maskrcnn:
  obtains kw fkw where
    "calls (maskrcnn_notebook quiet_world p) =
       [Shell '' python3 -m pip install --upgrade sagemaker'',
        Call_sagemaker_Session, Call_default_bucket, Call_get_execution_role,
        Call_boto3_client ''sts'', Call_get_caller_identity, Call_boto3_Session,
        Shell ''pygmentize ./Dockerfile'',
        Shell ''pygmentize ./build_and_push.sh'',
        Shell ('' chmod +x build_and_push.sh; bash build_and_push.sh ''
                 @ ''us-west-2'' @ '' '' @ op_image p @ '' '' @ op_tag p),
        Call_estimator (PyTorch kw), Call_FileSystemInput fkw,
        Call_fit (PyTorch kw) [(''train'', FileSystemInput fkw)] (op_job_name p),
        Job_terminal (PyTorch kw) [(''train'', FileSystemInput fkw)] (op_job_name p)]"
proof (cases rule: maskrcnn_cases [of quiet_world p])
  case (setup_raises x)
  with quiet_setup_ok show thesis by simp
next
  case (setup_completes r a kw fkw)
  have "w_estimator quiet_world (PyTorch kw) = None" "w_FileSystemInput quiet_world fkw = None"
    "w_fit quiet_world (PyTorch kw) [(''train'', FileSystemInput fkw)] (op_job_name p) = None"
    "w_region_name quiet_world = Some ''us-west-2''"
    by (simp_all add: quiet_world_def)
  with setup_completes(7) that [of kw fkw] show thesis by simp
qed

lemma quiet_bert:
  obtains kw fkw where
    "calls (bert_notebook quiet_world p) =
       [Shell '' python3 -m pip install --upgrade sagemaker'',
        Call_sagemaker_Session, Call_default_bucket, Call_get_execution_role,
        Call_boto3_client ''sts'', Call_get_caller_identity, Call_boto3_Session,
        Shell ''pygmentize ./Dockerfile'',
        Shell ''pygmentize ./build_and_push.sh'',
        Shell ('' chmod +x build_and_push.sh; bash build_and_push.sh ''
                 @ ''us-west-2'' @ '' '' @ op_image p @ '' '' @ op_tag p),
        Shell ''rm -rf deep-learning-models'',
        Shell ''git clone --recursive https://github.com/HerringForks/deep-learning-models.git'',
        Call_estimator (TensorFlow kw), Call_FileSystemInput fkw,
        Call_fit (TensorFlow kw) [(''train'', FileSystemInput fkw)] (op_job_name p),
        Job_terminal (TensorFlow kw) [(''train'', FileSystemInput fkw)] (op_job_name p)]"
proof (cases rule: bert_cases [of quiet_world p])
  case (setup_raises x)
  with quiet_setup_ok show thesis by simp
next
  case (setup_completes r a kw fkw)
  have "w_estimator quiet_world (TensorFlow kw) = None" "w_FileSystemInput quiet_world fkw = None"
    "w_fit quiet_world (TensorFlow kw) [(''train'', FileSystemInput fkw)] (op_job_name p) = None"
    "w_region_name quiet_world = Some ''us-west-2''"
    by (simp_all add: quiet_world_def)
  with setup_completes(7) that [of kw fkw] show thesis by simp
qed

section \<open>Properties of the notebooks\<close>

text \<open>
  C1. Whatever instance type, instance count and hyperparameter dictionary the variables
  \<open>instance_type\<close>, \<open>instance_count\<close> and \<open>hyperparameters\<close> hold when the estimator cell
  runs, the cell calls the estimator constructor (\<open>PyTorch\<close> in the MaskRCNN notebook,
  \<open>TensorFlow\<close> in the BERT notebook) with exactly these values under the keywords of the
  same names: the dictionary is passed whole, no entry changed or dropped. When the
  constructor does not raise, the object it returns is bound to \<open>estimator\<close>. In a run of a
  whole notebook the values that arrive are the instance type and count the operator wrote
  into the configuration cell and the dictionary of the hyperparameter cell: no cell in
  between rebinds them.
\<close>

theorem estimator_pass_through:
  "(role s = Some r \<and> docker_image s = Some d \<and> instance_count s = Some n
      \<and> instance_type s = Some ty \<and> sagemaker_session s = Some ss
      \<and> hyperparameters s = Some hp \<and> subnets s = Some sn
      \<and> security_group_ids s = Some sg
      \<longrightarrow> (\<exists>kw. calls (maskrcnn_cell_estimator w s) = trace s @ [Call_estimator (PyTorch kw)]
            \<and> kw_instance_type kw = ty \<and> kw_instance_count kw = n \<and> kw_hyperparameters kw = hp
            \<and> estimator (final (maskrcnn_cell_estimator w s)) =
                (if w_estimator w (PyTorch kw) = None then Some (PyTorch kw) else estimator s))
        \<and> (\<exists>kw. calls (bert_cell_estimator w s) = trace s @ [Call_estimator (TensorFlow kw)]
            \<and> kw_instance_type kw = ty \<and> kw_instance_count kw = n \<and> kw_hyperparameters kw = hp
            \<and> estimator (final (bert_cell_estimator w s)) =
                (if w_estimator w (TensorFlow kw) = None then Some (TensorFlow kw) else estimator s)))
   \<and> (Call_estimator e \<in> set (calls (maskrcnn_notebook w p)) \<longrightarrow>
          kw_instance_type (kwargs_of e) = op_instance_type p
        \<and> kw_instance_count (kwargs_of e) = op_instance_count p
        \<and> kw_hyperparameters (kwargs_of e) =
            [(''config-file'', PStr (op_config_file p)), (''skip-test'', PStr []),
             (''seed'', PInt 987), (''dtype'', PStr ''float16'')])
   \<and> (Call_estimator e \<in> set (calls (bert_notebook w p)) \<longrightarrow>
          kw_instance_type (kwargs_of e) = op_instance_type p
        \<and> kw_instance_count (kwargs_of e) = op_instance_count p
        \<and> kw_hyperparameters (kwargs_of e) =
            [(''train_dir'', PStr
               ''/opt/ml/input/data/train/tfrecords/train/max_seq_len_128_max_predictions_per_seq_20_masked_lm_prob_15''),
             (''val_dir'', PStr
               ''/opt/ml/input/data/train/tfrecords/validation/max_seq_len_128_max_predictions_per_seq_20_masked_lm_prob_15''),
             (''log_dir'', PStr ''/opt/ml/input/data/train/checkpoints/bert/logs''),
             (''checkpoint_dir'', PStr ''/opt/ml/input/data/train/checkpoints/bert''),
             (''load_from'', PStr ''scratch''),
             (''model_type'', PStr ''bert''),
             (''model_size'', PStr ''large''),
             (''per_gpu_batch_size'', PInt 64),
             (''max_seq_length'', PInt 128),
             (''max_predictions_per_seq'', PInt 20),
             (''optimizer'', PStr ''lamb''),
             (''learning_rate'', PFloat ''0.005''),
             (''end_learning_rate'', PFloat ''0.0003''),
             (''hidden_dropout_prob'', PFloat ''0.1''),
             (''attention_probs_dropout_prob'', PFloat ''0.1''),
             (''gradient_accumulation_steps'', PInt 1),
             (''learning_rate_decay_power'', PFloat ''0.5''),
             (''warmup_steps'', PInt 2812),
             (''total_steps'', PInt 2000),
             (''log_frequency'', PInt 10),
             (''run_name'', PStr (op_job_name p)),
             (''squad_frequency'', PInt 0)])"
proof (intro conjI impI)
  assume "role s = Some r \<and> docker_image s = Some d \<and> instance_count s = Some n
      \<and> instance_type s = Some ty \<and> sagemaker_session s = Some ss
      \<and> hyperparameters s = Some hp \<and> subnets s = Some sn
      \<and> security_group_ids s = Some sg"
  then have s [simp]: "role s = Some r" "docker_image s = Some d" "instance_count s = Some n"
    "instance_type s = Some ty" "sagemaker_session s = Some ss" "hyperparameters s = Some hp"
    "subnets s = Some sn" "security_group_ids s = Some sg"
    by simp_all
  let ?m = "\<lparr> kw_entry_point = ''train_pytorch_smdataparallel_maskrcnn.py'', kw_role = r,
      kw_image_uri = d, kw_source_dir = ''.'', kw_instance_count = n, kw_instance_type = ty,
      kw_framework_version = ''1.8.1'', kw_py_version = ''py36'', kw_sagemaker_session = ss,
      kw_hyperparameters = hp, kw_subnets = sn, kw_security_group_ids = sg,
      kw_debugger_hook_config = False, kw_distribution = distribution \<rparr>"
  let ?b = "\<lparr> kw_entry_point = ''albert/run_pretraining.py'', kw_role = r,
      kw_image_uri = d, kw_source_dir = ''deep-learning-models/models/nlp'',
      kw_instance_count = n, kw_instance_type = ty,
      kw_framework_version = ''2.4.1'', kw_py_version = ''py37'', kw_sagemaker_session = ss,
      kw_hyperparameters = hp, kw_subnets = sn, kw_security_group_ids = sg,
      kw_debugger_hook_config = False, kw_distribution = distribution \<rparr>"
  have "calls (maskrcnn_cell_estimator w s) = trace s @ [Call_estimator (PyTorch ?m)]
      \<and> kw_instance_type ?m = ty \<and> kw_instance_count ?m = n \<and> kw_hyperparameters ?m = hp
      \<and> estimator (final (maskrcnn_cell_estimator w s)) =
            (if w_estimator w (PyTorch ?m) = None then Some (PyTorch ?m) else estimator s)"
    by (simp add: late_defs stmt_defs calls_def split: option.splits)
  then show "\<exists>kw. calls (maskrcnn_cell_estimator w s) = trace s @ [Call_estimator (PyTorch kw)]
            \<and> kw_instance_type kw = ty \<and> kw_instance_count kw = n \<and> kw_hyperparameters kw = hp
            \<and> estimator (final (maskrcnn_cell_estimator w s)) =
                (if w_estimator w (PyTorch kw) = None then Some (PyTorch kw) else estimator s)"
    by (rule exI)
  have "calls (bert_cell_estimator w s) = trace s @ [Call_estimator (TensorFlow ?b)]
      \<and> kw_instance_type ?b = ty \<and> kw_instance_count ?b = n \<and> kw_hyperparameters ?b = hp
      \<and> estimator (final (bert_cell_estimator w s)) =
            (if w_estimator w (TensorFlow ?b) = None then Some (TensorFlow ?b) else estimator s)"
    by (simp add: late_defs stmt_defs calls_def split: option.splits)
  then show "\<exists>kw. calls (bert_cell_estimator w s) = trace s @ [Call_estimator (TensorFlow kw)]
            \<and> kw_instance_type kw = ty \<and> kw_instance_count kw = n \<and> kw_hyperparameters kw = hp
            \<and> estimator (final (bert_cell_estimator w s)) =
                (if w_estimator w (TensorFlow kw) = None then Some (TensorFlow kw) else estimator s)"
    by (rule exI)
next
  assume e: "Call_estimator e \<in> set (calls (maskrcnn_notebook w p))"
  have "kw_instance_type (kwargs_of e) = op_instance_type p
        \<and> kw_instance_count (kwargs_of e) = op_instance_count p
        \<and> kw_hyperparameters (kwargs_of e) =
            [(''config-file'', PStr (op_config_file p)), (''skip-test'', PStr []),
             (''seed'', PInt 987), (''dtype'', PStr ''float16'')]"
  proof (cases rule: maskrcnn_cases [of w p])
    case (setup_raises x pre nm)
    from setup_raises(2,5) e show ?thesis by auto
  next
    case (setup_completes r a kw fkw)
    from e have "e = PyTorch kw"
      unfolding setup_completes(7) by (auto split: if_splits)
    then show ?thesis by (simp add: setup_completes(4))
  qed
  then show "kw_instance_type (kwargs_of e) = op_instance_type p"
    and "kw_instance_count (kwargs_of e) = op_instance_count p"
    and "kw_hyperparameters (kwargs_of e) =
            [(''config-file'', PStr (op_config_file p)), (''skip-test'', PStr []),
             (''seed'', PInt 987), (''dtype'', PStr ''float16'')]"
    by simp_all
next
  assume e: "Call_estimator e \<in> set (calls (bert_notebook w p))"
  have "kw_instance_type (kwargs_of e) = op_instance_type p
        \<and> kw_instance_count (kwargs_of e) = op_instance_count p
        \<and> kw_hyperparameters (kwargs_of e) =
            [(''train_dir'', PStr
               ''/opt/ml/input/data/train/tfrecords/train/max_seq_len_128_max_predictions_per_seq_20_masked_lm_prob_15''),
             (''val_dir'', PStr
               ''/opt/ml/input/data/train/tfrecords/validation/max_seq_len_128_max_predictions_per_seq_20_masked_lm_prob_15''),
             (''log_dir'', PStr ''/opt/ml/input/data/train/checkpoints/bert/logs''),
             (''checkpoint_dir'', PStr ''/opt/ml/input/data/train/checkpoints/bert''),
             (''load_from'', PStr ''scratch''),
             (''model_type'', PStr ''bert''),
             (''model_size'', PStr ''large''),
             (''per_gpu_batch_size'', PInt 64),
             (''max_seq_length'', PInt 128),
             (''max_predictions_per_seq'', PInt 20),
             (''optimizer'', PStr ''lamb''),
             (''learning_rate'', PFloat ''0.005''),
             (''end_learning_rate'', PFloat ''0.0003''),
             (''hidden_dropout_prob'', PFloat ''0.1''),
             (''attention_probs_dropout_prob'', PFloat ''0.1''),
             (''gradient_accumulation_steps'', PInt 1),
             (''learning_rate_decay_power'', PFloat ''0.5''),
             (''warmup_steps'', PInt 2812),
             (''total_steps'', PInt 2000),
             (''log_frequency'', PInt 10),
             (''run_name'', PStr (op_job_name p)),
             (''squad_frequency'', PInt 0)]"
  proof (cases rule: bert_cases [of w p])
    case (setup_raises x pre nm)
    from setup_raises(2,5) e show ?thesis by auto
  next
    case (setup_completes r a kw fkw)
    from e have "e = TensorFlow kw"
      unfolding setup_completes(7) by (auto split: if_splits)
    then show ?thesis by (simp add: setup_completes(4))
  qed
  then show "kw_instance_type (kwargs_of e) = op_instance_type p"
    and "kw_instance_count (kwargs_of e) = op_instance_count p"
    and "kw_hyperparameters (kwargs_of e) =
            [(''train_dir'', PStr
               ''/opt/ml/input/data/train/tfrecords/train/max_seq_len_128_max_predictions_per_seq_20_masked_lm_prob_15''),
             (''val_dir'', PStr
               ''/opt/ml/input/data/train/tfrecords/validation/max_seq_len_128_max_predictions_per_seq_20_masked_lm_prob_15''),
             (''log_dir'', PStr ''/opt/ml/input/data/train/checkpoints/bert/logs''),
             (''checkpoint_dir'', PStr ''/opt/ml/input/data/train/checkpoints/bert''),
             (''load_from'', PStr ''scratch''),
             (''model_type'', PStr ''bert''),
             (''model_size'', PStr ''large''),
             (''per_gpu_batch_size'', PInt 64),
             (''max_seq_length'', PInt 128),
             (''max_predictions_per_seq'', PInt 20),
             (''optimizer'', PStr ''lamb''),
             (''learning_rate'', PFloat ''0.005''),
             (''end_learning_rate'', PFloat ''0.0003''),
             (''hidden_dropout_prob'', PFloat ''0.1''),
             (''attention_probs_dropout_prob'', PFloat ''0.1''),
             (''gradient_accumulation_steps'', PInt 1),
             (''learning_rate_decay_power'', PFloat ''0.5''),
             (''warmup_steps'', PInt 2812),
             (''total_steps'', PInt 2000),
             (''log_frequency'', PInt 10),
             (''run_name'', PStr (op_job_name p)),
             (''squad_frequency'', PInt 0)]"
    by simp_all
qed

theorem estimator_pass_through_witness:
  "(\<exists>kw. calls (maskrcnn_cell_estimator quiet_world
              (fresh\<lparr>sagemaker_session := Some SagemakerSession, role := Some ''arn'',
                 instance_type := Some ''ml.p3.16xlarge'', instance_count := Some 4,
                 docker_image := Some ''img'', subnets := Some [], security_group_ids := Some [],
                 hyperparameters := Some [(''seed'', PInt 987)]\<rparr>))
            = [Call_estimator (PyTorch kw)]
        \<and> kw_instance_type kw = ''ml.p3.16xlarge'' \<and> kw_instance_count kw = 4
        \<and> kw_hyperparameters kw = [(''seed'', PInt 987)])
   \<and> (\<exists>e. Call_estimator e \<in> set (calls (bert_notebook quiet_world bert_as_written))
        \<and> kw_instance_type (kwargs_of e) = ''ml.p3dn.24xlarge''
        \<and> kw_instance_count (kwargs_of e) = 2
        \<and> length (kw_hyperparameters (kwargs_of e)) = 22)"
proof
  let ?s = "fresh\<lparr>sagemaker_session := Some SagemakerSession, role := Some ''arn'',
         instance_type := Some ''ml.p3.16xlarge'', instance_count := Some 4,
         docker_image := Some ''img'', subnets := Some [], security_group_ids := Some [],
         hyperparameters := Some [(''seed'', PInt 987)]\<rparr>"
  from estimator_pass_through [where s = ?s and r = "''arn''" and d = "''img''" and n = 4
      and ty = "''ml.p3.16xlarge''" and ss = SagemakerSession and hp = "[(''seed'', PInt 987)]"
      and sn = "[]" and sg = "[]" and w = quiet_world]
  show "\<exists>kw. calls (maskrcnn_cell_estimator quiet_world ?s) = [Call_estimator (PyTorch kw)]
        \<and> kw_instance_type kw = ''ml.p3.16xlarge'' \<and> kw_instance_count kw = 4
        \<and> kw_hyperparameters kw = [(''seed'', PInt 987)]"
    by simp blast
  obtain kw and fkw :: fs_kwargs where e: "Call_estimator (TensorFlow kw)
      \<in> set (calls (bert_notebook quiet_world bert_as_written))"
    by (rule quiet_bert [of bert_as_written]) simp
  with estimator_pass_through [where w = quiet_world and p = bert_as_written
      and e = "TensorFlow kw"]
  have "kw_instance_type (kwargs_of (TensorFlow kw)) = ''ml.p3dn.24xlarge''
        \<and> kw_instance_count (kwargs_of (TensorFlow kw)) = 2
        \<and> length (kw_hyperparameters (kwargs_of (TensorFlow kw))) = 22"
    by (simp add: bert_as_written_def)
  with e show "\<exists>e. Call_estimator e \<in> set (calls (bert_notebook quiet_world bert_as_written))
        \<and> kw_instance_type (kwargs_of e) = ''ml.p3dn.24xlarge''
        \<and> kw_instance_count (kwargs_of e) = 2
        \<and> length (kw_hyperparameters (kwargs_of e)) = 22"
    by blast
qed

text \<open>
  C2. Whatever file-system id the variable \<open>file_system_id\<close> holds and whatever directory
  path and access mode the operator has written into the cell, the cell calls
  \<open>FileSystemInput\<close> with exactly these three values under the keywords \<open>file_system_id\<close>,
  \<open>directory_path\<close> and \<open>file_system_access_mode\<close>, and, when the constructor does not raise,
  binds \<open>train_fs\<close> to the object made from them: reading the three keywords back from the
  binding gives the inputs.
\<close>

theorem file_system_input_round_trip:
  assumes "file_system_id s = Some fid"
  shows "\<exists>kw. calls (cell_fs_input w p s) = trace s @ [Call_FileSystemInput kw]
         \<and> kw_file_system_id kw = fid
         \<and> kw_directory_path kw = op_file_system_directory_path p
         \<and> kw_file_system_access_mode kw = op_file_system_access_mode p
         \<and> train_fs (final (cell_fs_input w p s)) =
             (if w_FileSystemInput w kw = None then Some (FileSystemInput kw) else train_fs s)"
proof -
  let ?kw = "\<lparr> kw_file_system_id = fid, kw_file_system_type = op_file_system_type p,
      kw_directory_path = op_file_system_directory_path p,
      kw_file_system_access_mode = op_file_system_access_mode p \<rparr>"
  have "calls (cell_fs_input w p s) = trace s @ [Call_FileSystemInput ?kw]
         \<and> kw_file_system_id ?kw = fid
         \<and> kw_directory_path ?kw = op_file_system_directory_path p
         \<and> kw_file_system_access_mode ?kw = op_file_system_access_mode p
         \<and> train_fs (final (cell_fs_input w p s)) =
             (if w_FileSystemInput w ?kw = None then Some (FileSystemInput ?kw) else train_fs s)"
    using assms by (simp add: late_defs stmt_defs calls_def split: option.splits)
  then show ?thesis by (rule exI)
qed

theorem file_system_input_round_trip_witness:
  "\<exists>kw. calls (cell_fs_input quiet_world maskrcnn_filled_in
            (fresh\<lparr>file_system_id := Some ''fs-0bYYYYYY''\<rparr>)) = [Call_FileSystemInput kw]
      \<and> kw_file_system_id kw = ''fs-0bYYYYYY''
      \<and> kw_directory_path kw = ''/fsx/mask_rcnn/PyTorch''
      \<and> kw_file_system_access_mode kw = ''ro''
      \<and> train_fs (final (cell_fs_input quiet_world maskrcnn_filled_in
            (fresh\<lparr>file_system_id := Some ''fs-0bYYYYYY''\<rparr>))) = Some (FileSystemInput kw)"
  using file_system_input_round_trip [of "fresh\<lparr>file_system_id := Some ''fs-0bYYYYYY''\<rparr>"
      "''fs-0bYYYYYY''" quiet_world maskrcnn_filled_in]
  by (simp add: quiet_world_def maskrcnn_filled_in_def)

text \<open>
  C3. In every run of either training notebook, every estimator that is constructed or
  submitted carries the distribution dictionary
  \<open>{'smdistributed': {'dataparallel': {'enabled': True}}}\<close>: one key at each level, the flag
  \<open>enabled\<close> set to \<open>True\<close>, and nothing else. And the dictionary is passed: whenever the
  session setup completes, each notebook calls its estimator constructor with it, and when
  that constructor and \<open>FileSystemInput\<close> return, the estimator made with it is submitted.
\<close>

theorem distribution_flag_only:
  "((c \<in> set (calls (maskrcnn_notebook w p)) \<union> set (calls (bert_notebook w p)) \<and> (c = Call_estimator e \<or> c = Call_fit e chans jn)) \<longrightarrow>
      kw_distribution (kwargs_of e) =
        [(''smdistributed'', PDict [(''dataparallel'', PDict [(''enabled'', PBool True)])])])
   \<and> (setup_ok w \<longrightarrow>
        (\<exists>kw. Call_estimator (PyTorch kw) \<in> set (calls (maskrcnn_notebook w p))
           \<and> kw_distribution kw =
               [(''smdistributed'', PDict [(''dataparallel'', PDict [(''enabled'', PBool True)])])]
           \<and> (w_estimator w (PyTorch kw) = None \<and> w_FileSystemInput w \<lparr> kw_file_system_id = op_file_system_id p,
                  kw_file_system_type = op_file_system_type p,
                  kw_directory_path = op_file_system_directory_path p,
                  kw_file_system_access_mode = op_file_system_access_mode p \<rparr> = None \<longrightarrow>
                Call_fit (PyTorch kw) [(''train'', FileSystemInput
                \<lparr> kw_file_system_id = op_file_system_id p,
                  kw_file_system_type = op_file_system_type p,
                  kw_directory_path = op_file_system_directory_path p,
                  kw_file_system_access_mode = op_file_system_access_mode p \<rparr>)] (op_job_name p)
                  \<in> set (calls (maskrcnn_notebook w p))))
      \<and> (\<exists>kw. Call_estimator (TensorFlow kw) \<in> set (calls (bert_notebook w p))
           \<and> kw_distribution kw =
               [(''smdistributed'', PDict [(''dataparallel'', PDict [(''enabled'', PBool True)])])]
           \<and> (w_estimator w (TensorFlow kw) = None \<and> w_FileSystemInput w \<lparr> kw_file_system_id = op_file_system_id p,
                  kw_file_system_type = op_file_system_type p,
                  kw_directory_path = op_file_system_directory_path p,
                  kw_file_system_access_mode = op_file_system_access_mode p \<rparr> = None \<longrightarrow>
                Call_fit (TensorFlow kw) [(''train'', FileSystemInput
                \<lparr> kw_file_system_id = op_file_system_id p,
                  kw_file_system_type = op_file_system_type p,
                  kw_directory_path = op_file_system_directory_path p,
                  kw_file_system_access_mode = op_file_system_access_mode p \<rparr>)] (op_job_name p)
                  \<in> set (calls (bert_notebook w p)))))"
proof -
  let ?D = "[(''smdistributed'', PDict [(''dataparallel'', PDict [(''enabled'', PBool True)])])]"
  let ?F = "\<lparr> kw_file_system_id = op_file_system_id p,
                  kw_file_system_type = op_file_system_type p,
                  kw_directory_path = op_file_system_directory_path p,
                  kw_file_system_access_mode = op_file_system_access_mode p \<rparr>"
  let ?X = "[(''train'', FileSystemInput ?F)]"
  have m: "((c \<in> set (calls (maskrcnn_notebook w p)) \<and> (c = Call_estimator e \<or> c = Call_fit e chans jn)) \<longrightarrow>
      kw_distribution (kwargs_of e) =
        ?D)
     \<and> (setup_ok w \<longrightarrow>
        (\<exists>kw. Call_estimator (PyTorch kw) \<in> set (calls (maskrcnn_notebook w p))
           \<and> kw_distribution kw =
               ?D
           \<and> (w_estimator w (PyTorch kw) = None \<and> w_FileSystemInput w ?F = None \<longrightarrow>
                Call_fit (PyTorch kw) ?X (op_job_name p)
                  \<in> set (calls (maskrcnn_notebook w p)))))"
  proof (cases rule: maskrcnn_cases [of w p])
    case (setup_raises x pre nm)
    with maskrcnn_nothing_constructed [OF setup_raises(1)] show ?thesis
      by auto
  next
    case (setup_completes r a kw fkw)
    have fkw: "fkw = ?F"
      by (rule setup_completes(5))
    have d: "kw_distribution kw = ?D"
      by (simp add: setup_completes(4) distribution_def)
    have only: "e = PyTorch kw"
      if "c \<in> set (calls (maskrcnn_notebook w p))" "c = Call_estimator e \<or> c = Call_fit e chans jn"
      using that unfolding setup_completes(7) by (auto split: if_splits)
    have made: "Call_estimator (PyTorch kw) \<in> set (calls (maskrcnn_notebook w p))"
      unfolding setup_completes(7) by simp
    have submitted: "Call_fit (PyTorch kw) ?X (op_job_name p) \<in> set (calls (maskrcnn_notebook w p))"
      if "w_estimator w (PyTorch kw) = None" "w_FileSystemInput w ?F = None"
      unfolding setup_completes(7) fkw using that by simp
    show ?thesis
    proof (intro conjI impI)
      assume "c \<in> set (calls (maskrcnn_notebook w p)) \<and> (c = Call_estimator e \<or> c = Call_fit e chans jn)"
      then have "e = PyTorch kw"
        using only by simp
      with d show "kw_distribution (kwargs_of e) = ?D"
        by simp
    next
      from made d submitted
      show "\<exists>kw. Call_estimator (PyTorch kw) \<in> set (calls (maskrcnn_notebook w p))
           \<and> kw_distribution kw =
               ?D
           \<and> (w_estimator w (PyTorch kw) = None \<and> w_FileSystemInput w ?F = None \<longrightarrow>
                Call_fit (PyTorch kw) ?X (op_job_name p)
                  \<in> set (calls (maskrcnn_notebook w p)))"
        by (intro exI [of _ kw] conjI impI) simp_all
    qed
  qed
  have b: "((c \<in> set (calls (bert_notebook w p)) \<and> (c = Call_estimator e \<or> c = Call_fit e chans jn)) \<longrightarrow>
      kw_distribution (kwargs_of e) =
        ?D)
     \<and> (setup_ok w \<longrightarrow>
        (\<exists>kw. Call_estimator (TensorFlow kw) \<in> set (calls (bert_notebook w p))
           \<and> kw_distribution kw =
               ?D
           \<and> (w_estimator w (TensorFlow kw) = None \<and> w_FileSystemInput w ?F = None \<longrightarrow>
                Call_fit (TensorFlow kw) ?X (op_job_name p)
                  \<in> set (calls (bert_notebook w p)))))"
  proof (cases rule: bert_cases [of w p])
    case (setup_raises x pre nm)
    with bert_nothing_constructed [OF setup_raises(1)] show ?thesis
      by auto
  next
    case (setup_completes r a kw fkw)
    have fkw: "fkw = ?F"
      by (rule setup_completes(5))
    have d: "kw_distribution kw = ?D"
      by (simp add: setup_completes(4) distribution_def)
    have only: "e = TensorFlow kw"
      if "c \<in> set (calls (bert_notebook w p))" "c = Call_estimator e \<or> c = Call_fit e chans jn"
      using that unfolding setup_completes(7) by (auto split: if_splits)
    have made: "Call_estimator (TensorFlow kw) \<in> set (calls (bert_notebook w p))"
      unfolding setup_completes(7) by simp
    have submitted: "Call_fit (TensorFlow kw) ?X (op_job_name p) \<in> set (calls (bert_notebook w p))"
      if "w_estimator w (TensorFlow kw) = None" "w_FileSystemInput w ?F = None"
      unfolding setup_completes(7) fkw using that by simp
    show ?thesis
    proof (intro conjI impI)
      assume "c \<in> set (calls (bert_notebook w p)) \<and> (c = Call_estimator e \<or> c = Call_fit e chans jn)"
      then have "e = TensorFlow kw"
        using only by simp
      with d show "kw_distribution (kwargs_of e) = ?D"
        by simp
    next
      from made d submitted
      show "\<exists>kw. Call_estimator (TensorFlow kw) \<in> set (calls (bert_notebook w p))
           \<and> kw_distribution kw =
               ?D
           \<and> (w_estimator w (TensorFlow kw) = None \<and> w_FileSystemInput w ?F = None \<longrightarrow>
                Call_fit (TensorFlow kw) ?X (op_job_name p)
                  \<in> set (calls (bert_notebook w p)))"
        by (intro exI [of _ kw] conjI impI) simp_all
    qed
  qed
  show ?thesis
  proof (intro conjI impI)
    assume "c \<in> set (calls (maskrcnn_notebook w p)) \<union> set (calls (bert_notebook w p))
       \<and> (c = Call_estimator e \<or> c = Call_fit e chans jn)"
    with m b show "kw_distribution (kwargs_of e) = ?D"
      by auto
  next
    assume "setup_ok w"
    with m show "\<exists>kw. Call_estimator (PyTorch kw) \<in> set (calls (maskrcnn_notebook w p))
           \<and> kw_distribution kw =
               ?D
           \<and> (w_estimator w (PyTorch kw) = None \<and> w_FileSystemInput w ?F = None \<longrightarrow>
                Call_fit (PyTorch kw) ?X (op_job_name p)
                  \<in> set (calls (maskrcnn_notebook w p)))"
      by simp
  next
    assume "setup_ok w"
    with b show "\<exists>kw. Call_estimator (TensorFlow kw) \<in> set (calls (bert_notebook w p))
           \<and> kw_distribution kw =
               ?D
           \<and> (w_estimator w (TensorFlow kw) = None \<and> w_FileSystemInput w ?F = None \<longrightarrow>
                Call_fit (TensorFlow kw) ?X (op_job_name p)
                  \<in> set (calls (bert_notebook w p)))"
      by simp
  qed
qed

theorem distribution_flag_only_witness:
  "(\<exists>e chans jn. Call_fit e chans jn \<in> set (calls (maskrcnn_notebook quiet_world maskrcnn_as_written))
      \<and> kw_distribution (kwargs_of e) =
           [(''smdistributed'', PDict [(''dataparallel'', PDict [(''enabled'', PBool True)])])])
   \<and> (\<exists>e chans jn. Call_fit e chans jn \<in> set (calls (bert_notebook quiet_world bert_as_written))
      \<and> kw_distribution (kwargs_of e) =
           [(''smdistributed'', PDict [(''dataparallel'', PDict [(''enabled'', PBool True)])])])"
proof
  have quiet: "w_estimator quiet_world e = None" "w_FileSystemInput quiet_world f = None" for e f
    by (simp_all add: quiet_world_def)
  from distribution_flag_only [where w = quiet_world and p = maskrcnn_as_written, THEN conjunct2, THEN mp,
      OF quiet_setup_ok, THEN conjunct1]
  obtain kw where "Call_fit (PyTorch kw) [(''train'', FileSystemInput
                \<lparr> kw_file_system_id = op_file_system_id maskrcnn_as_written,
                  kw_file_system_type = op_file_system_type maskrcnn_as_written,
                  kw_directory_path = op_file_system_directory_path maskrcnn_as_written,
                  kw_file_system_access_mode = op_file_system_access_mode maskrcnn_as_written \<rparr>)]
      (op_job_name maskrcnn_as_written) \<in> set (calls (maskrcnn_notebook quiet_world maskrcnn_as_written))"
    "kw_distribution kw =
       [(''smdistributed'', PDict [(''dataparallel'', PDict [(''enabled'', PBool True)])])]"
    by (auto simp add: quiet)
  then show "\<exists>e chans jn. Call_fit e chans jn
        \<in> set (calls (maskrcnn_notebook quiet_world maskrcnn_as_written))
      \<and> kw_distribution (kwargs_of e) =
           [(''smdistributed'', PDict [(''dataparallel'', PDict [(''enabled'', PBool True)])])]"
    by (metis kwargs_of.simps(1))
  from distribution_flag_only [where w = quiet_world and p = bert_as_written, THEN conjunct2, THEN mp,
      OF quiet_setup_ok, THEN conjunct2]
  obtain kw where "Call_fit (TensorFlow kw) [(''train'', FileSystemInput
                \<lparr> kw_file_system_id = op_file_system_id bert_as_written,
                  kw_file_system_type = op_file_system_type bert_as_written,
                  kw_directory_path = op_file_system_directory_path bert_as_written,
                  kw_file_system_access_mode = op_file_system_access_mode bert_as_written \<rparr>)]
      (op_job_name bert_as_written) \<in> set (calls (bert_notebook quiet_world bert_as_written))"
    "kw_distribution kw =
       [(''smdistributed'', PDict [(''dataparallel'', PDict [(''enabled'', PBool True)])])]"
    by (auto simp add: quiet)
  then show "\<exists>e chans jn. Call_fit e chans jn
        \<in> set (calls (bert_notebook quiet_world bert_as_written))
      \<and> kw_distribution (kwargs_of e) =
           [(''smdistributed'', PDict [(''dataparallel'', PDict [(''enabled'', PBool True)])])]"
    by (metis kwargs_of.simps(2))
qed

text \<open>
  C5 (as stated). The claim: every run of the build-and-push step passes exactly three
  positional arguments to \<open>build_and_push.sh\<close>, region, image name and tag, nothing else and
  nothing transformed. It fails in two ways. The three values are pasted into the line
  unquoted, so the shell splits them again: with the image name \<open>mask rcnn\<close> the script
  receives four arguments. And when a call of the first cell has raised (here
  \<open>get_execution_role\<close>), \<open>%%time\<close> lets the run go on with \<open>region\<close> unbound, and the line
  reaches the shell as written, with the words \<open>{region} {image} {tag}\<close> in place of the
  values.
\<close>

theorem build_and_push_counterexample:
  "script_invocations (calls (maskrcnn_notebook quiet_world
       (maskrcnn_filled_in\<lparr>op_image := ''mask rcnn''\<rparr>)))
     = Some [[''us-west-2'', ''mask'', ''rcnn'', ''pt1.8'']]
   \<and> Shell '' chmod +x build_and_push.sh; bash build_and_push.sh {region} {image} {tag}''
       \<in> set (calls (maskrcnn_notebook
             (quiet_world\<lparr>w_get_execution_role := Inl ''AccessDenied''\<rparr>) maskrcnn_filled_in))"
proof
  have line: "script_args '' chmod +x build_and_push.sh; bash build_and_push.sh us-west-2 mask rcnn pt1.8''
      = Some [[''us-west-2'', ''mask'', ''rcnn'', ''pt1.8'']]"
    by (simp add: script_args_def shell_commands_def shell_words_def word_char_def is_blank_def)
  show "script_invocations (calls (maskrcnn_notebook quiet_world
       (maskrcnn_filled_in\<lparr>op_image := ''mask rcnn''\<rparr>)))
     = Some [[''us-west-2'', ''mask'', ''rcnn'', ''pt1.8'']]"
    by (rule quiet_maskrcnn [of "maskrcnn_filled_in\<lparr>op_image := ''mask rcnn''\<rparr>"])
      (simp add: maskrcnn_filled_in_def script_args_fixed line)
  let ?w = "quiet_world\<lparr>w_get_execution_role := Inl ''AccessDenied''\<rparr>"
  have "\<not> setup_ok ?w"
    by (simp add: setup_ok_def)
  then show "Shell '' chmod +x build_and_push.sh; bash build_and_push.sh {region} {image} {tag}''
       \<in> set (calls (maskrcnn_notebook ?w maskrcnn_filled_in))"
    by (cases rule: maskrcnn_cases [of ?w maskrcnn_filled_in]) simp_all
qed

text \<open>
  C5 (amended). In every run of either training notebook in which the session setup
  completes, and in which \<open>str\<close> of the session's region, the image name and the tag are not
  empty and consist of letters, digits and the characters \<open>- _ . / : +\<close> only,
  \<open>build_and_push.sh\<close> is started exactly once and receives exactly three positional
  arguments: the region, the image name and the tag, in this order and unchanged.
\<close>

theorem build_and_push_arguments:
  assumes "setup_ok w"
    and "inert (py_str (w_region_name w))" and "inert (op_image p)" and "inert (op_tag p)"
  shows "script_invocations (calls (maskrcnn_notebook w p)) =
           Some [[py_str (w_region_name w), op_image p, op_tag p]]
       \<and> script_invocations (calls (bert_notebook w p)) =
           Some [[py_str (w_region_name w), op_image p, op_tag p]]"
proof
  note line = script_args_build [OF assms(2-4)]
  show "script_invocations (calls (maskrcnn_notebook w p)) =
           Some [[py_str (w_region_name w), op_image p, op_tag p]]"
  proof (cases rule: maskrcnn_cases [of w p])
    case (setup_raises x pre nm)
    with assms(1) show ?thesis by simp
  next
    case (setup_completes r a kw fkw)
    show ?thesis
      unfolding setup_completes(7) script_invocations_append
      by (simp add: script_args_fixed line [simplified])
  qed
  show "script_invocations (calls (bert_notebook w p)) =
           Some [[py_str (w_region_name w), op_image p, op_tag p]]"
  proof (cases rule: bert_cases [of w p])
    case (setup_raises x pre nm)
    with assms(1) show ?thesis by simp
  next
    case (setup_completes r a kw fkw)
    show ?thesis
      unfolding setup_completes(7) script_invocations_append
      by (simp add: script_args_fixed line [simplified])
  qed
qed

theorem build_and_push_arguments_witness:
  "script_invocations (calls (maskrcnn_notebook quiet_world maskrcnn_filled_in)) =
     Some [[''us-west-2'', ''mask-rcnn-smdataparallel-sagemaker'', ''pt1.8'']]
   \<and> script_invocations (calls (bert_notebook quiet_world maskrcnn_filled_in)) =
     Some [[''us-west-2'', ''mask-rcnn-smdataparallel-sagemaker'', ''pt1.8'']]"
proof -
  have "inert (py_str (w_region_name quiet_world))" "inert (op_image maskrcnn_filled_in)"
    "inert (op_tag maskrcnn_filled_in)"
    by (simp_all add: inert_def word_char_def quiet_world_def maskrcnn_filled_in_def)
  from build_and_push_arguments [OF quiet_setup_ok this] show ?thesis
    by (simp add: quiet_world_def maskrcnn_filled_in_def)
qed

text \<open>
  C6 (as stated). The claim: the notebooks do no local validation, retry or recovery, and a
  run fails only with whatever exception or exit status the outside emits. The first cell of
  both training notebooks runs under \<open>%%time\<close>: when \<open>get_execution_role\<close> raises, the
  exception is printed, the run goes on, and it ends with a \<open>NameError\<close> for \<open>account\<close> that
  the notebook itself raises in the configuration cell.
\<close>

theorem no_local_validation_counterexample:
  "raised (maskrcnn_notebook (quiet_world\<lparr>w_get_execution_role := Inl ''AccessDenied''\<rparr>)
      maskrcnn_as_written) = Some (NameError ''account'')"
  by (simp add: maskrcnn_notebook_def maskrcnn_cells_def setup_defs mid_defs stmt_defs
      quiet_world_def)

text \<open>
  C6 (amended). Whatever strings the operator supplies, neither training notebook checks
  them or retries a call: no call is made twice. Once the session setup has completed, the
  cells that assemble the configuration complete for every choice of the operator's values,
  so that the estimator constructor is reached, and the run ends only by completing, every
  call having returned without raising, or with the exception that the outside raised for
  the last call made, every call before it having returned without raising. When a call of
  the session setup raises, its exception is printed by \<open>%%time\<close> and is not what the run
  ends with: the run goes on and ends with a \<open>NameError\<close> for \<open>account\<close> or \<open>region\<close>, before
  any estimator is constructed. A shell line never raises in the notebook, whatever its exit
  status.
\<close>

theorem no_local_validation:
  "(setup_ok w \<longrightarrow>
        (case raised (maskrcnn_notebook w p) of
           None \<Rightarrow> \<forall>c\<in>set (calls (maskrcnn_notebook w p)). answer w c = None
         | Some err \<Rightarrow> \<exists>x. err = External x
             \<and> answer w (last (calls (maskrcnn_notebook w p))) = Some x
             \<and> (\<forall>c\<in>set (butlast (calls (maskrcnn_notebook w p))). answer w c = None))
        \<and> shown (final (maskrcnn_notebook w p)) = []
        \<and> (\<exists>e. Call_estimator e \<in> set (calls (maskrcnn_notebook w p))))
   \<and> (\<not> setup_ok w \<longrightarrow>
        (\<exists>x c nm. shown (final (maskrcnn_notebook w p)) = [External x]
           \<and> c \<in> set (calls (maskrcnn_notebook w p)) \<and> answer w c = Some x
           \<and> raised (maskrcnn_notebook w p) = Some (NameError nm)
           \<and> (nm = ''account'' \<or> nm = ''region'')
           \<and> (\<forall>e. Call_estimator e \<notin> set (calls (maskrcnn_notebook w p)))))
   \<and> distinct (calls (maskrcnn_notebook w p))
   \<and> (setup_ok w \<longrightarrow>
        (case raised (bert_notebook w p) of
           None \<Rightarrow> \<forall>c\<in>set (calls (bert_notebook w p)). answer w c = None
         | Some err \<Rightarrow> \<exists>x. err = External x
             \<and> answer w (last (calls (bert_notebook w p))) = Some x
             \<and> (\<forall>c\<in>set (butlast (calls (bert_notebook w p))). answer w c = None))
        \<and> shown (final (bert_notebook w p)) = []
        \<and> (\<exists>e. Call_estimator e \<in> set (calls (bert_notebook w p))))
   \<and> (\<not> setup_ok w \<longrightarrow>
        (\<exists>x c nm. shown (final (bert_notebook w p)) = [External x]
           \<and> c \<in> set (calls (bert_notebook w p)) \<and> answer w c = Some x
           \<and> raised (bert_notebook w p) = Some (NameError nm)
           \<and> (nm = ''account'' \<or> nm = ''region'')
           \<and> (\<forall>e. Call_estimator e \<notin> set (calls (bert_notebook w p)))))
   \<and> distinct (calls (bert_notebook w p))"
proof -
  have m: "(setup_ok w \<longrightarrow>
        (case raised (maskrcnn_notebook w p) of
           None \<Rightarrow> \<forall>c\<in>set (calls (maskrcnn_notebook w p)). answer w c = None
         | Some err \<Rightarrow> \<exists>x. err = External x
             \<and> answer w (last (calls (maskrcnn_notebook w p))) = Some x
             \<and> (\<forall>c\<in>set (butlast (calls (maskrcnn_notebook w p))). answer w c = None))
        \<and> shown (final (maskrcnn_notebook w p)) = []
        \<and> (\<exists>e. Call_estimator e \<in> set (calls (maskrcnn_notebook w p))))
   \<and> (\<not> setup_ok w \<longrightarrow>
        (\<exists>x c nm. shown (final (maskrcnn_notebook w p)) = [External x]
           \<and> c \<in> set (calls (maskrcnn_notebook w p)) \<and> answer w c = Some x
           \<and> raised (maskrcnn_notebook w p) = Some (NameError nm)
           \<and> (nm = ''account'' \<or> nm = ''region'')
           \<and> (\<forall>e. Call_estimator e \<notin> set (calls (maskrcnn_notebook w p)))))
   \<and> distinct (calls (maskrcnn_notebook w p))"
  proof (cases rule: maskrcnn_cases [of w p])
    case (setup_raises x pre nm)
    from setup_raises(2) have "pre \<noteq> []"
      by auto
    then have "last pre \<in> set (calls (maskrcnn_notebook w p))"
      unfolding setup_raises(5) by simp
    with setup_raises(1,3,6-8) maskrcnn_nothing_constructed(1,5) [OF setup_raises(1)]
    show ?thesis by blast
  next
    case (setup_completes r a kw fkw)
    note quiet = setup_ok_answers [OF setup_completes(1)]
    have "distinct (calls (maskrcnn_notebook w p))"
      unfolding setup_completes(7) by simp
    moreover have "\<exists>e. Call_estimator e \<in> set (calls (maskrcnn_notebook w p))"
      unfolding setup_completes(7) by auto
    moreover have "case raised (maskrcnn_notebook w p) of
           None \<Rightarrow> \<forall>c\<in>set (calls (maskrcnn_notebook w p)). answer w c = None
         | Some err \<Rightarrow> \<exists>x. err = External x
             \<and> answer w (last (calls (maskrcnn_notebook w p))) = Some x
             \<and> (\<forall>c\<in>set (butlast (calls (maskrcnn_notebook w p))). answer w c = None)"
      unfolding setup_completes(6) setup_completes(7)
      using quiet by (simp add: butlast_append split: option.splits)
    ultimately show ?thesis
      using setup_completes(1) setup_completes(10) by simp
  qed
  have b: "(setup_ok w \<longrightarrow>
        (case raised (bert_notebook w p) of
           None \<Rightarrow> \<forall>c\<in>set (calls (bert_notebook w p)). answer w c = None
         | Some err \<Rightarrow> \<exists>x. err = External x
             \<and> answer w (last (calls (bert_notebook w p))) = Some x
             \<and> (\<forall>c\<in>set (butlast (calls (bert_notebook w p))). answer w c = None))
        \<and> shown (final (bert_notebook w p)) = []
        \<and> (\<exists>e. Call_estimator e \<in> set (calls (bert_notebook w p))))
   \<and> (\<not> setup_ok w \<longrightarrow>
        (\<exists>x c nm. shown (final (bert_notebook w p)) = [External x]
           \<and> c \<in> set (calls (bert_notebook w p)) \<and> answer w c = Some x
           \<and> raised (bert_notebook w p) = Some (NameError nm)
           \<and> (nm = ''account'' \<or> nm = ''region'')
           \<and> (\<forall>e. Call_estimator e \<notin> set (calls (bert_notebook w p)))))
   \<and> distinct (calls (bert_notebook w p))"
  proof (cases rule: bert_cases [of w p])
    case (setup_raises x pre nm)
    from setup_raises(2) have "pre \<noteq> []"
      by auto
    then have "last pre \<in> set (calls (bert_notebook w p))"
      unfolding setup_raises(5) by simp
    with setup_raises(1,3,6-8) bert_nothing_constructed(1,5) [OF setup_raises(1)]
    show ?thesis by blast
  next
    case (setup_completes r a kw fkw)
    note quiet = setup_ok_answers [OF setup_completes(1)]
    have "distinct (calls (bert_notebook w p))"
      unfolding setup_completes(7) by simp
    moreover have "\<exists>e. Call_estimator e \<in> set (calls (bert_notebook w p))"
      unfolding setup_completes(7) by auto
    moreover have "case raised (bert_notebook w p) of
           None \<Rightarrow> \<forall>c\<in>set (calls (bert_notebook w p)). answer w c = None
         | Some err \<Rightarrow> \<exists>x. err = External x
             \<and> answer w (last (calls (bert_notebook w p))) = Some x
             \<and> (\<forall>c\<in>set (butlast (calls (bert_notebook w p))). answer w c = None)"
      unfolding setup_completes(6) setup_completes(7)
      using quiet by (simp add: butlast_append split: option.splits)
    ultimately show ?thesis
      using setup_completes(1) setup_completes(10) by simp
  qed
  from m b show ?thesis by blast
qed

theorem no_local_validation_witness:
  "(\<exists>e. Call_estimator e \<in> set (calls (maskrcnn_notebook quiet_world maskrcnn_as_written)))
   \<and> raised (maskrcnn_notebook (quiet_world\<lparr>w_estimator := \<lambda>e. Some ''ValidationError''\<rparr>)
        maskrcnn_as_written) = Some (External ''ValidationError'')
   \<and> (\<exists>nm. raised (bert_notebook (quiet_world\<lparr>w_boto3_Session := Some ''NoRegion''\<rparr>)
        bert_as_written) = Some (NameError nm))"
proof -
  let ?w = "quiet_world\<lparr>w_estimator := \<lambda>e. Some ''ValidationError''\<rparr>"
  let ?run = "maskrcnn_notebook ?w maskrcnn_as_written"
  have ok: "setup_ok ?w"
    by (simp add: setup_ok_def quiet_world_def)
  from no_local_validation [of ?w maskrcnn_as_written] ok
  obtain e where e: "Call_estimator e \<in> set (calls ?run)"
    by blast
  have refused: "answer ?w (Call_estimator e) = Some ''ValidationError''"
    by simp
  from no_local_validation [of ?w maskrcnn_as_written] ok e refused
  obtain x where x: "raised ?run = Some (External x)" "answer ?w (last (calls ?run)) = Some x"
    "\<forall>c\<in>set (butlast (calls ?run)). answer ?w c = None"
    by (cases "raised ?run") force+
  from x(3) e refused have "Call_estimator e \<notin> set (butlast (calls ?run))"
    by force
  with e have "last (calls ?run) = Call_estimator e"
    by (cases "calls ?run" rule: rev_cases) auto
  with x(1,2) refused have "raised ?run = Some (External ''ValidationError'')"
    by simp
  moreover from no_local_validation [of quiet_world maskrcnn_as_written] quiet_setup_ok
  have "\<exists>e. Call_estimator e \<in> set (calls (maskrcnn_notebook quiet_world maskrcnn_as_written))"
    by blast
  moreover have "\<not> setup_ok (quiet_world\<lparr>w_boto3_Session := Some ''NoRegion''\<rparr>)"
    by (simp add: setup_ok_def)
  with no_local_validation [of "quiet_world\<lparr>w_boto3_Session := Some ''NoRegion''\<rparr>"
      bert_as_written]
  have "\<exists>nm. raised (bert_notebook (quiet_world\<lparr>w_boto3_Session := Some ''NoRegion''\<rparr>)
        bert_as_written) = Some (NameError nm)"
    by blast
  ultimately show ?thesis by blast
qed

text \<open>
  C7. In every run of either training notebook, the inputs that \<open>estimator.fit\<close> receives
  are a dictionary with the single key \<open>'train'\<close>, bound to the \<open>FileSystemInput\<close> made from the
  file-system id, the file-system type, the directory path and the access mode of this run;
  and \<open>data_channels\<close>, at the end of any run, is unbound or bound to exactly this dictionary.
  The dictionary is built and passed: whenever the session setup completes and the
  estimator constructor returns, \<open>FileSystemInput\<close> is called with these four values, and
  when it returns, \<open>data_channels\<close> is bound to the dictionary and \<open>fit\<close> is called with it.
\<close>

theorem train_channel_only:
  "((Call_fit e chans jn \<in> set (calls (maskrcnn_notebook w p)) \<longrightarrow> chans = [(''train'', FileSystemInput
             \<lparr> kw_file_system_id = op_file_system_id p,
               kw_file_system_type = op_file_system_type p,
               kw_directory_path = op_file_system_directory_path p,
               kw_file_system_access_mode = op_file_system_access_mode p \<rparr>)])
     \<and> data_channels (final (maskrcnn_notebook w p)) \<in> {None, Some [(''train'', FileSystemInput
             \<lparr> kw_file_system_id = op_file_system_id p,
               kw_file_system_type = op_file_system_type p,
               kw_directory_path = op_file_system_directory_path p,
               kw_file_system_access_mode = op_file_system_access_mode p \<rparr>)]}
     \<and> (setup_ok w \<longrightarrow> (\<exists>kw. Call_estimator (PyTorch kw) \<in> set (calls (maskrcnn_notebook w p))
           \<and> (w_estimator w (PyTorch kw) = None \<longrightarrow>
                Call_FileSystemInput \<lparr> kw_file_system_id = op_file_system_id p,
               kw_file_system_type = op_file_system_type p,
               kw_directory_path = op_file_system_directory_path p,
               kw_file_system_access_mode = op_file_system_access_mode p \<rparr> \<in> set (calls (maskrcnn_notebook w p))
              \<and> (w_FileSystemInput w \<lparr> kw_file_system_id = op_file_system_id p,
               kw_file_system_type = op_file_system_type p,
               kw_directory_path = op_file_system_directory_path p,
               kw_file_system_access_mode = op_file_system_access_mode p \<rparr> = None \<longrightarrow>
                   Call_fit (PyTorch kw) [(''train'', FileSystemInput
             \<lparr> kw_file_system_id = op_file_system_id p,
               kw_file_system_type = op_file_system_type p,
               kw_directory_path = op_file_system_directory_path p,
               kw_file_system_access_mode = op_file_system_access_mode p \<rparr>)] (op_job_name p) \<in> set (calls (maskrcnn_notebook w p))
                 \<and> data_channels (final (maskrcnn_notebook w p)) = Some [(''train'', FileSystemInput
             \<lparr> kw_file_system_id = op_file_system_id p,
               kw_file_system_type = op_file_system_type p,
               kw_directory_path = op_file_system_directory_path p,
               kw_file_system_access_mode = op_file_system_access_mode p \<rparr>)])))))
   \<and> ((Call_fit e chans jn \<in> set (calls (bert_notebook w p)) \<longrightarrow> chans = [(''train'', FileSystemInput
             \<lparr> kw_file_system_id = op_file_system_id p,
               kw_file_system_type = op_file_system_type p,
               kw_directory_path = op_file_system_directory_path p,
               kw_file_system_access_mode = op_file_system_access_mode p \<rparr>)])
     \<and> data_channels (final (bert_notebook w p)) \<in> {None, Some [(''train'', FileSystemInput
             \<lparr> kw_file_system_id = op_file_system_id p,
               kw_file_system_type = op_file_system_type p,
               kw_directory_path = op_file_system_directory_path p,
               kw_file_system_access_mode = op_file_system_access_mode p \<rparr>)]}
     \<and> (setup_ok w \<longrightarrow> (\<exists>kw. Call_estimator (TensorFlow kw) \<in> set (calls (bert_notebook w p))
           \<and> (w_estimator w (TensorFlow kw) = None \<longrightarrow>
                Call_FileSystemInput \<lparr> kw_file_system_id = op_file_system_id p,
               kw_file_system_type = op_file_system_type p,
               kw_directory_path = op_file_system_directory_path p,
               kw_file_system_access_mode = op_file_system_access_mode p \<rparr> \<in> set (calls (bert_notebook w p))
              \<and> (w_FileSystemInput w \<lparr> kw_file_system_id = op_file_system_id p,
               kw_file_system_type = op_file_system_type p,
               kw_directory_path = op_file_system_directory_path p,
               kw_file_system_access_mode = op_file_system_access_mode p \<rparr> = None \<longrightarrow>
                   Call_fit (TensorFlow kw) [(''train'', FileSystemInput
             \<lparr> kw_file_system_id = op_file_system_id p,
               kw_file_system_type = op_file_system_type p,
               kw_directory_path = op_file_system_directory_path p,
               kw_file_system_access_mode = op_file_system_access_mode p \<rparr>)] (op_job_name p) \<in> set (calls (bert_notebook w p))
                 \<and> data_channels (final (bert_notebook w p)) = Some [(''train'', FileSystemInput
             \<lparr> kw_file_system_id = op_file_system_id p,
               kw_file_system_type = op_file_system_type p,
               kw_directory_path = op_file_system_directory_path p,
               kw_file_system_access_mode = op_file_system_access_mode p \<rparr>)])))))"
proof -
  let ?F = "\<lparr> kw_file_system_id = op_file_system_id p,
               kw_file_system_type = op_file_system_type p,
               kw_directory_path = op_file_system_directory_path p,
               kw_file_system_access_mode = op_file_system_access_mode p \<rparr>"
  let ?X = "[(''train'', FileSystemInput ?F)]"
  have m: "(Call_fit e chans jn \<in> set (calls (maskrcnn_notebook w p)) \<longrightarrow> chans = ?X)
     \<and> data_channels (final (maskrcnn_notebook w p)) \<in> {None, Some ?X}
     \<and> (setup_ok w \<longrightarrow> (\<exists>kw. Call_estimator (PyTorch kw) \<in> set (calls (maskrcnn_notebook w p))
           \<and> (w_estimator w (PyTorch kw) = None \<longrightarrow>
                Call_FileSystemInput ?F \<in> set (calls (maskrcnn_notebook w p))
              \<and> (w_FileSystemInput w ?F = None \<longrightarrow>
                   Call_fit (PyTorch kw) ?X (op_job_name p) \<in> set (calls (maskrcnn_notebook w p))
                 \<and> data_channels (final (maskrcnn_notebook w p)) = Some ?X))))"
  proof (cases rule: maskrcnn_cases [of w p])
    case (setup_raises x pre nm)
    from setup_raises(1,9) maskrcnn_nothing_constructed(3) [OF setup_raises(1)] show ?thesis
      by simp
  next
    case (setup_completes r a kw fkw)
    have fkw: "fkw = ?F"
      by (rule setup_completes(5))
    have only: "chans = ?X" if "Call_fit e chans jn \<in> set (calls (maskrcnn_notebook w p))"
      using that unfolding setup_completes(7) fkw by (auto split: if_splits)
    from setup_completes(8) have bound: "data_channels (final (maskrcnn_notebook w p)) \<in> {None, Some ?X}"
      unfolding fkw by simp
    have made: "Call_estimator (PyTorch kw) \<in> set (calls (maskrcnn_notebook w p))"
      unfolding setup_completes(7) by simp
    have wired: "Call_FileSystemInput ?F \<in> set (calls (maskrcnn_notebook w p))"
      if "w_estimator w (PyTorch kw) = None"
      unfolding setup_completes(7) fkw using that by simp
    have passed: "Call_fit (PyTorch kw) ?X (op_job_name p) \<in> set (calls (maskrcnn_notebook w p))
        \<and> data_channels (final (maskrcnn_notebook w p)) = Some ?X"
      if "w_estimator w (PyTorch kw) = None" "w_FileSystemInput w ?F = None"
      using that setup_completes(8) unfolding setup_completes(7) fkw by simp
    show ?thesis
    proof (intro conjI impI)
      assume "Call_fit e chans jn \<in> set (calls (maskrcnn_notebook w p))"
      then show "chans = ?X" by (rule only)
    next
      show "data_channels (final (maskrcnn_notebook w p)) \<in> {None, Some ?X}" by (rule bound)
    next
      from made wired passed
      show "(\<exists>kw. Call_estimator (PyTorch kw) \<in> set (calls (maskrcnn_notebook w p))
           \<and> (w_estimator w (PyTorch kw) = None \<longrightarrow>
                Call_FileSystemInput ?F \<in> set (calls (maskrcnn_notebook w p))
              \<and> (w_FileSystemInput w ?F = None \<longrightarrow>
                   Call_fit (PyTorch kw) ?X (op_job_name p) \<in> set (calls (maskrcnn_notebook w p))
                 \<and> data_channels (final (maskrcnn_notebook w p)) = Some ?X)))"
        by (intro exI [of _ kw] conjI impI) simp_all
    qed
  qed
  have b: "(Call_fit e chans jn \<in> set (calls (bert_notebook w p)) \<longrightarrow> chans = ?X)
     \<and> data_channels (final (bert_notebook w p)) \<in> {None, Some ?X}
     \<and> (setup_ok w \<longrightarrow> (\<exists>kw. Call_estimator (TensorFlow kw) \<in> set (calls (bert_notebook w p))
           \<and> (w_estimator w (TensorFlow kw) = None \<longrightarrow>
                Call_FileSystemInput ?F \<in> set (calls (bert_notebook w p))
              \<and> (w_FileSystemInput w ?F = None \<longrightarrow>
                   Call_fit (TensorFlow kw) ?X (op_job_name p) \<in> set (calls (bert_notebook w p))
                 \<and> data_channels (final (bert_notebook w p)) = Some ?X))))"
  proof (cases rule: bert_cases [of w p])
    case (setup_raises x pre nm)
    from setup_raises(1,9) bert_nothing_constructed(3) [OF setup_raises(1)] show ?thesis
      by simp
  next
    case (setup_completes r a kw fkw)
    have fkw: "fkw = ?F"
      by (rule setup_completes(5))
    have only: "chans = ?X" if "Call_fit e chans jn \<in> set (calls (bert_notebook w p))"
      using that unfolding setup_completes(7) fkw by (auto split: if_splits)
    from setup_completes(8) have bound: "data_channels (final (bert_notebook w p)) \<in> {None, Some ?X}"
      unfolding fkw by simp
    have made: "Call_estimator (TensorFlow kw) \<in> set (calls (bert_notebook w p))"
      unfolding setup_completes(7) by simp
    have wired: "Call_FileSystemInput ?F \<in> set (calls (bert_notebook w p))"
      if "w_estimator w (TensorFlow kw) = None"
      unfolding setup_completes(7) fkw using that by simp
    have passed: "Call_fit (TensorFlow kw) ?X (op_job_name p) \<in> set (calls (bert_notebook w p))
        \<and> data_channels (final (bert_notebook w p)) = Some ?X"
      if "w_estimator w (TensorFlow kw) = None" "w_FileSystemInput w ?F = None"
      using that setup_completes(8) unfolding setup_completes(7) fkw by simp
    show ?thesis
    proof (intro conjI impI)
      assume "Call_fit e chans jn \<in> set (calls (bert_notebook w p))"
      then show "chans = ?X" by (rule only)
    next
      show "data_channels (final (bert_notebook w p)) \<in> {None, Some ?X}" by (rule bound)
    next
      from made wired passed
      show "(\<exists>kw. Call_estimator (TensorFlow kw) \<in> set (calls (bert_notebook w p))
           \<and> (w_estimator w (TensorFlow kw) = None \<longrightarrow>
                Call_FileSystemInput ?F \<in> set (calls (bert_notebook w p))
              \<and> (w_FileSystemInput w ?F = None \<longrightarrow>
                   Call_fit (TensorFlow kw) ?X (op_job_name p) \<in> set (calls (bert_notebook w p))
                 \<and> data_channels (final (bert_notebook w p)) = Some ?X)))"
        by (intro exI [of _ kw] conjI impI) simp_all
    qed
  qed
  from m b show ?thesis by (rule conjI)
qed

theorem train_channel_only_witness:
  "(\<exists>e jn. Call_fit e
       [(''train'', FileSystemInput
           \<lparr> kw_file_system_id = ''fs-0bYYYYYY'', kw_file_system_type = ''FSxLustre'',
             kw_directory_path = ''/fsx/mask_rcnn/PyTorch'',
             kw_file_system_access_mode = ''ro'' \<rparr>)] jn
     \<in> set (calls (maskrcnn_notebook quiet_world maskrcnn_filled_in)))
   \<and> (\<exists>e jn. Call_fit e
       [(''train'', FileSystemInput
           \<lparr> kw_file_system_id = ''<FSX_ID>'', kw_file_system_type = ''FSxLustre'',
             kw_directory_path = ''<FSX_DIRECTORY_PATH>'',
             kw_file_system_access_mode = ''rw'' \<rparr>)] jn
     \<in> set (calls (bert_notebook quiet_world bert_as_written)))
   \<and> data_channels (final (bert_notebook quiet_world bert_as_written)) =
       Some [(''train'', FileSystemInput
           \<lparr> kw_file_system_id = ''<FSX_ID>'', kw_file_system_type = ''FSxLustre'',
             kw_directory_path = ''<FSX_DIRECTORY_PATH>'',
             kw_file_system_access_mode = ''rw'' \<rparr>)]"
proof -
  have quiet: "w_estimator quiet_world e = None" "w_FileSystemInput quiet_world f = None" for e f
    by (simp_all add: quiet_world_def)
  note m = train_channel_only [where w = quiet_world and p = maskrcnn_filled_in, THEN conjunct1,
      THEN conjunct2, THEN conjunct2, THEN mp, OF quiet_setup_ok]
  note b = train_channel_only [where w = quiet_world and p = bert_as_written, THEN conjunct2,
      THEN conjunct2, THEN conjunct2, THEN mp, OF quiet_setup_ok]
  from m have "\<exists>e jn. Call_fit e
       [(''train'', FileSystemInput
           \<lparr> kw_file_system_id = ''fs-0bYYYYYY'', kw_file_system_type = ''FSxLustre'',
             kw_directory_path = ''/fsx/mask_rcnn/PyTorch'',
             kw_file_system_access_mode = ''ro'' \<rparr>)] jn
     \<in> set (calls (maskrcnn_notebook quiet_world maskrcnn_filled_in))"
    by (auto simp add: quiet maskrcnn_filled_in_def)
  moreover from b have "(\<exists>e jn. Call_fit e
       [(''train'', FileSystemInput
           \<lparr> kw_file_system_id = ''<FSX_ID>'', kw_file_system_type = ''FSxLustre'',
             kw_directory_path = ''<FSX_DIRECTORY_PATH>'',
             kw_file_system_access_mode = ''rw'' \<rparr>)] jn
     \<in> set (calls (bert_notebook quiet_world bert_as_written)))
   \<and> data_channels (final (bert_notebook quiet_world bert_as_written)) =
       Some [(''train'', FileSystemInput
           \<lparr> kw_file_system_id = ''<FSX_ID>'', kw_file_system_type = ''FSxLustre'',
             kw_directory_path = ''<FSX_DIRECTORY_PATH>'',
             kw_file_system_access_mode = ''rw'' \<rparr>)]"
    by (auto simp add: quiet bert_as_written_def)
  ultimately show ?thesis by (rule conjI)
qed



text \<open>
  C9 (as stated). The claim: the model artifact location is the restored \<open>model_data\<close>,
  unchanged, or else the URI of the copy in the default bucket, and in both branches it is a
  non-empty S3 URI before the model object is constructed. The restored value is not checked:
  when the store holds the empty string, the model object is constructed with it.
\<close>

theorem model_data_counterexample:
  "Call_TensorFlowModel
     \<lparr> kw_model_data = [],
       kw_model_role = ''arn:aws:iam::123456789012:role/service-role/Notebook'',
       kw_model_framework_version = ''2.3'' \<rparr>
   \<in> set (calls (deploy_notebook (quiet_world\<lparr>w_stored_model_data := Some []\<rparr>)))"
  by (simp add: deploy_notebook_def deploy_cells_def deploy_defs stmt_role_def stmt_defs
      calls_def quiet_world_def)

text \<open>
  C9 (amended). In every run of the deployment notebook in which the model object is
  constructed, \<open>model_data\<close> was resolved by exactly one of two branches. If the store held a
  value under \<open>model_data\<close>, the model is constructed with that value as it is, whatever it is,
  and nothing is downloaded or uploaded. Otherwise the object at key
  \<open>datasets/image/MNIST/model/model.tar.gz\<close> was downloaded from the bucket
  \<open>sagemaker-sample-files\<close> and uploaded under the same key to the default bucket, and the
  model is constructed with \<open>'s3://' + default_bucket + '/' + key\<close>, which is not empty and
  starts with \<open>s3://\<close>.
\<close>

theorem model_data_resolution:
  assumes "Call_TensorFlowModel kw \<in> set (calls (deploy_notebook w))"
  shows "case w_stored_model_data w of
           Some v \<Rightarrow> kw_model_data kw = v
             \<and> take 2 (calls (deploy_notebook w)) = [Call_get_execution_role, Call_TensorFlowModel kw]
         | None \<Rightarrow> \<exists>b. w_default_bucket w = Inr b
             \<and> kw_model_data kw = ''s3://'' @ b @ ''/'' @ ''datasets/image/MNIST/model/model.tar.gz''
             \<and> kw_model_data kw \<noteq> [] \<and> take 5 (kw_model_data kw) = ''s3://''
             \<and> take 9 (calls (deploy_notebook w)) =
                 [Call_boto3_client ''s3'',
                  Call_open ''/tmp/model.tar.gz'' ''wb'',
                  Call_download_fileobj ''sagemaker-sample-files''
                    ''datasets/image/MNIST/model/model.tar.gz'',
                  Call_sagemaker_Session,
                  Call_default_bucket,
                  Call_open ''/tmp/model.tar.gz'' ''rb'',
                  Call_upload_fileobj b ''datasets/image/MNIST/model/model.tar.gz'',
                  Call_get_execution_role,
                  Call_TensorFlowModel kw]"
  using assms
  by (auto simp add: deploy_notebook_def deploy_cells_def deploy_defs stmt_role_def stmt_defs
      calls_def split: option.splits sum.splits)

theorem model_data_resolution_witness:
  "\<exists>kw. Call_TensorFlowModel kw \<in> set (calls (deploy_notebook quiet_world))
     \<and> kw_model_data kw =
         ''s3://sagemaker-us-west-2-123456789012/datasets/image/MNIST/model/model.tar.gz''"
proof -
  have "Call_TensorFlowModel
     \<lparr> kw_model_data =
         ''s3://sagemaker-us-west-2-123456789012/datasets/image/MNIST/model/model.tar.gz'',
       kw_model_role = ''arn:aws:iam::123456789012:role/service-role/Notebook'',
       kw_model_framework_version = ''2.3'' \<rparr>
     \<in> set (calls (deploy_notebook quiet_world))"
    by (simp add: deploy_notebook_def deploy_cells_def deploy_defs stmt_role_def stmt_defs
        calls_def quiet_world_def)
  from this model_data_resolution [OF this] show ?thesis
    by (auto simp add: quiet_world_def)
qed

text \<open>
  C10. In every run of the MaskRCNN notebook, the image reference of every estimator that
  is constructed or submitted is the account id, \<open>.dkr.ecr.\<close>, the region the boto3 session
  reported in the first cell (as \<open>str\<close> renders it), \<open>.amazonaws.com/\<close>, the image name,
  \<open>:\<close> and the tag. The assignment that follows rebinds \<open>region\<close> to the operator's literal
  and leaves the reference as it was: where the session's region and the literal differ, the
  reference is not the one the literal would give.
\<close>

theorem docker_image_keeps_session_region:
  assumes "c \<in> set (calls (maskrcnn_notebook w p))"
    and "c = Call_estimator e \<or> c = Call_fit e chans jn"
  shows "\<exists>a. w_get_caller_identity w = Inr a
     \<and> kw_image_uri (kwargs_of e) =
         a @ ''.dkr.ecr.'' @ py_str (w_region_name w) @ ''.amazonaws.com/''
           @ op_image p @ '':'' @ op_tag p
     \<and> region (final (maskrcnn_notebook w p)) = Some (Some (op_region p))
     \<and> (py_str (w_region_name w) \<noteq> op_region p \<longrightarrow>
          kw_image_uri (kwargs_of e) \<noteq>
            a @ ''.dkr.ecr.'' @ op_region p @ ''.amazonaws.com/'' @ op_image p @ '':'' @ op_tag p)"
proof (cases rule: maskrcnn_cases [of w p])
  case (setup_raises x pre nm)
  with assms show ?thesis by auto
next
  case (setup_completes r a kw fkw)
  from assms have e: "e = PyTorch kw"
    unfolding setup_completes(7) by (auto split: if_splits)
  have uri: "kw_image_uri (kwargs_of e) =
         a @ ''.dkr.ecr.'' @ py_str (w_region_name w) @ ''.amazonaws.com/''
           @ op_image p @ '':'' @ op_tag p"
    by (simp add: e setup_completes(4))
  have "py_str (w_region_name w) \<noteq> op_region p \<longrightarrow>
          kw_image_uri (kwargs_of e) \<noteq>
            a @ ''.dkr.ecr.'' @ op_region p @ ''.amazonaws.com/'' @ op_image p @ '':'' @ op_tag p"
    unfolding uri by simp
  with uri setup_completes(3) setup_completes(9) show ?thesis by blast
qed

theorem docker_image_keeps_session_region_witness:
  "\<exists>e. Call_estimator e \<in> set (calls (maskrcnn_notebook quiet_world maskrcnn_as_written))
     \<and> kw_image_uri (kwargs_of e) =
         ''123456789012.dkr.ecr.us-west-2.amazonaws.com/<ADD NAME OF REPO>:<ADD TAG FOR IMAGE>''
     \<and> kw_image_uri (kwargs_of e) \<noteq>
         ''123456789012.dkr.ecr.<REGION>.amazonaws.com/<ADD NAME OF REPO>:<ADD TAG FOR IMAGE>''
     \<and> region (final (maskrcnn_notebook quiet_world maskrcnn_as_written)) = Some (Some ''<REGION>'')"
proof -
  obtain kw and fkw :: fs_kwargs where e: "Call_estimator (PyTorch kw)
      \<in> set (calls (maskrcnn_notebook quiet_world maskrcnn_as_written))"
    by (rule quiet_maskrcnn [of maskrcnn_as_written]) simp
  from docker_image_keeps_session_region [OF e, of "PyTorch kw"]
  have "kw_image_uri (kwargs_of (PyTorch kw)) =
         ''123456789012.dkr.ecr.us-west-2.amazonaws.com/<ADD NAME OF REPO>:<ADD TAG FOR IMAGE>''
     \<and> kw_image_uri (kwargs_of (PyTorch kw)) \<noteq>
         ''123456789012.dkr.ecr.<REGION>.amazonaws.com/<ADD NAME OF REPO>:<ADD TAG FOR IMAGE>''
     \<and> region (final (maskrcnn_notebook quiet_world maskrcnn_as_written)) = Some (Some ''<REGION>'')"
    by (auto simp add: quiet_world_def maskrcnn_as_written_def)
  with e show ?thesis by blast
qed

end
